theory Spec2Isabelle
  imports Complex_Main "HOL-Library.Sublist"
begin

section \<open>Chat messages and the conversation data model\<close>

text \<open>
  The shared types \<^verbatim>\<open>ChatMessage\<close>, \<^verbatim>\<open>FileAttachment\<close>, \<^verbatim>\<open>ConversationMeta\<close> and
  \<^verbatim>\<open>Channel\<close> are imported by the sources from \<^verbatim>\<open>@proma/shared\<close>; the records below carry
  the fields the sources read and write. Optional fields (\<^verbatim>\<open>field?: T\<close>) are \<open>option\<close>
  values, \<open>None\<close> standing for \<^verbatim>\<open>undefined\<close>. Message ids, contents and URLs are only
  compared, concatenated and tested for emptiness, so they are plain strings.
  Record fields carry a prefix because a theory has one name space for all selectors.
\<close>

datatype Role = User | Assistant | System

record FileAttachment =
  att_id :: string
  att_filename :: string
  att_mediaType :: string
  att_localPath :: string

record ChatMessage =
  msg_id :: string
  msg_role :: Role
  msg_content :: string
  msg_createdAt :: int
  msg_attachments :: "FileAttachment list option"
  msg_model :: "string option"
  msg_reasoning :: "string option"
  msg_stopped :: "bool option"

text \<open>
  \<^verbatim>\<open>contextLength?: number | 'infinite'\<close>. The numeric case is modelled for integer
  values, which is what the settings offer and what the properties below speak about.
\<close>

datatype ContextLength = Num int | Infinite | Unset

section \<open>History windowing: \<^verbatim>\<open>filterHistory\<close> (chat-service.ts, lines 60-98)\<close>

text \<open>
  \<^verbatim>\<open>Array.prototype.findIndex\<close>: the index of the first element that satisfies the
  predicate; JavaScript's \<^verbatim>\<open>-1\<close> is \<open>None\<close>.
\<close>

fun findIndex :: "('a \<Rightarrow> bool) \<Rightarrow> 'a list \<Rightarrow> nat option" where
  "findIndex P [] = None"
| "findIndex P (x # xs) = (if P x then Some 0 else map_option Suc (findIndex P xs))"

text \<open>
  The loop of lines 84-92,
  \<^verbatim>\<open>for (let i = filtered.length - 1; i >= 0; i--) { collected.unshift(msg); ... break }\<close>.
  The second argument lists the messages still to visit, \<^verbatim>\<open>filtered[i], ..., filtered[0]\<close>
  in that order; \<open>roundCount\<close> and \<open>collected\<close> are the loop's two variables.
\<close>

fun collectRounds :: "int \<Rightarrow> ChatMessage list \<Rightarrow> int \<Rightarrow> ChatMessage list \<Rightarrow> ChatMessage list" where
  "collectRounds contextLength [] roundCount collected = collected"
| "collectRounds contextLength (msg # rest) roundCount collected =
     (if msg_role msg = User
      then (if roundCount + 1 \<ge> contextLength
            then msg # collected
            else collectRounds contextLength rest (roundCount + 1) (msg # collected))
      else collectRounds contextLength rest roundCount (msg # collected))"

text \<open>The divider step of lines 67-74; \<open>None\<close> is an absent \<^verbatim>\<open>contextDividers\<close> argument.\<close>

definition dividerFilter :: "ChatMessage list \<Rightarrow> string list option \<Rightarrow> ChatMessage list" where
  "dividerFilter messageHistory contextDividers =
     (case contextDividers of
        None \<Rightarrow> messageHistory
      | Some ds \<Rightarrow>
          if length ds > 0
          then (case findIndex (\<lambda>msg. msg_id msg = last ds) messageHistory of
                  Some dividerIndex \<Rightarrow> drop (dividerIndex + 1) messageHistory
                | None \<Rightarrow> messageHistory)
          else messageHistory)"

definition filterHistory ::
  "ChatMessage list \<Rightarrow> string list option \<Rightarrow> ContextLength \<Rightarrow> ChatMessage list" where
  "filterHistory messageHistory contextDividers contextLength =
     (let filtered = dividerFilter messageHistory contextDividers
      in case contextLength of
           Num n \<Rightarrow>
             if n \<ge> 0
             then (if n = 0 then [] else collectRounds n (rev filtered) 0 [])
             else filtered
         | Infinite \<Rightarrow> filtered
         | Unset \<Rightarrow> filtered)"

text \<open>The number of user-authored messages of a list.\<close>

definition userCount :: "ChatMessage list \<Rightarrow> nat" where
  "userCount ms = length (filter (\<lambda>m. msg_role m = User) ms)"

text \<open>A message with no optional field set (used to write example histories).\<close>

abbreviation plainMessage :: "string \<Rightarrow> Role \<Rightarrow> string \<Rightarrow> ChatMessage" where
  "plainMessage i r c \<equiv>
     \<lparr>msg_id = i, msg_role = r, msg_content = c, msg_createdAt = 0, msg_attachments = None,
      msg_model = None, msg_reasoning = None, msg_stopped = None\<rparr>"

section \<open>Parsed JSON and the JavaScript operations the adapters apply to it\<close>

text \<open>
  A value produced by \<^verbatim>\<open>JSON.parse\<close>. An object lists its own properties, each key once
  (\<^verbatim>\<open>JSON.parse\<close> keeps one value per key); lookup takes the first entry of a key.
  A number is represented by its value; only whether it is zero matters below.
  \<open>json option\<close> is a JavaScript value that may be \<^verbatim>\<open>undefined\<close> (\<open>None\<close>).
\<close>

datatype json =
    JNull
  | JBool bool
  | JNum real
  | JStr string
  | JArr "json list"
  | JObj "(string \<times> json) list"

datatype JsError = SyntaxError | TypeError

text \<open>
  The normalized stream events of \<^verbatim>\<open>providers/types.ts\<close>. The payload type is a parameter:
  the adapters push whatever value the frame holds under \<^verbatim>\<open>text\<close> or \<^verbatim>\<open>thinking\<close>, the chat
  service consumes string deltas.
\<close>

datatype 'd StreamEvent =
    StreamChunk 'd
  | StreamReasoning 'd
  | StreamError string
  | StreamDone

text \<open>
  Property read \<^verbatim>\<open>v.k\<close> for the keys the adapters use (\<^verbatim>\<open>type\<close>, \<^verbatim>\<open>delta\<close>, \<^verbatim>\<open>text\<close>,
  \<^verbatim>\<open>thinking\<close>, \<^verbatim>\<open>candidates\<close>, \<^verbatim>\<open>content\<close>, \<^verbatim>\<open>parts\<close>, \<^verbatim>\<open>thought\<close>): reading a property
  of \<^verbatim>\<open>null\<close> throws a TypeError; no prototype defines one of these keys, so booleans,
  numbers, strings and arrays give \<^verbatim>\<open>undefined\<close>.
\<close>

fun getProp :: "json \<Rightarrow> string \<Rightarrow> JsError + json option" where
  "getProp JNull k = Inl TypeError"
| "getProp (JObj props) k = Inr (map_of props k)"
| "getProp (JBool b) k = Inr None"
| "getProp (JNum r) k = Inr None"
| "getProp (JStr s) k = Inr None"
| "getProp (JArr xs) k = Inr None"

text \<open>Index read \<^verbatim>\<open>v[0]\<close>.\<close>

fun getIndex0 :: "json \<Rightarrow> JsError + json option" where
  "getIndex0 JNull = Inl TypeError"
| "getIndex0 (JArr xs) = Inr (case xs of [] \<Rightarrow> None | x # _ \<Rightarrow> Some x)"
| "getIndex0 (JStr s) = Inr (case s of [] \<Rightarrow> None | c # _ \<Rightarrow> Some (JStr [c]))"
| "getIndex0 (JObj props) = Inr (map_of props ''0'')"
| "getIndex0 (JBool b) = Inr None"
| "getIndex0 (JNum r) = Inr None"

text \<open>Optional chaining \<^verbatim>\<open>v?.k\<close>: \<^verbatim>\<open>undefined\<close> when \<open>v\<close> is \<^verbatim>\<open>null\<close> or \<^verbatim>\<open>undefined\<close>.\<close>

fun optChain :: "json option \<Rightarrow> (json \<Rightarrow> JsError + json option) \<Rightarrow> JsError + json option" where
  "optChain None f = Inr None"
| "optChain (Some JNull) f = Inr None"
| "optChain (Some v) f = f v"

text \<open>JavaScript truthiness.\<close>

fun truthy :: "json option \<Rightarrow> bool" where
  "truthy None = False"
| "truthy (Some JNull) = False"
| "truthy (Some (JBool b)) = b"
| "truthy (Some (JNum r)) = (r \<noteq> 0)"
| "truthy (Some (JStr s)) = (s \<noteq> [])"
| "truthy (Some (JArr xs)) = True"
| "truthy (Some (JObj props)) = True"

text \<open>\<^verbatim>\<open>for (const part of v)\<close>: arrays and strings are iterable, the other values are not.\<close>

fun iterate :: "json \<Rightarrow> JsError + json list" where
  "iterate (JArr xs) = Inr xs"
| "iterate (JStr s) = Inr (map (\<lambda>c. JStr [c]) s)"
| "iterate JNull = Inl TypeError"
| "iterate (JBool b) = Inl TypeError"
| "iterate (JNum r) = Inl TypeError"
| "iterate (JObj props) = Inl TypeError"

text \<open>Sequencing of computations that may throw.\<close>

fun bindE :: "'e + 'a \<Rightarrow> ('a \<Rightarrow> 'e + 'b) \<Rightarrow> 'e + 'b" where
  "bindE (Inl e) f = Inl e"
| "bindE (Inr x) f = f x"

text \<open>\<^verbatim>\<open>try { body } catch { return [] }\<close>.\<close>

fun catchEmpty :: "'e + 'a list \<Rightarrow> 'e + 'a list" where
  "catchEmpty (Inl e) = Inr []"
| "catchEmpty (Inr events) = Inr events"

section \<open>\<^verbatim>\<open>AnthropicAdapter.parseSSELine\<close> (anthropic-adapter.ts, lines 172-191)\<close>

text \<open>
  The body of the \<^verbatim>\<open>try\<close> block after \<^verbatim>\<open>JSON.parse\<close>. The right operand of \<^verbatim>\<open>&&\<close> is
  evaluated only when the left one holds.
\<close>

definition anthropicEvents :: "json \<Rightarrow> JsError + json StreamEvent list" where
  "anthropicEvents event =
     bindE (getProp event ''type'') (\<lambda>ty.
       if ty = Some (JStr ''content_block_delta'')
       then
         bindE (getProp event ''delta'') (\<lambda>delta.
         bindE (optChain delta (\<lambda>d. getProp d ''type'')) (\<lambda>deltaType.
         bindE (if deltaType = Some (JStr ''thinking_delta'')
                then optChain delta (\<lambda>d. getProp d ''thinking'') else Inr None) (\<lambda>thinking.
           if deltaType = Some (JStr ''thinking_delta'') \<and> truthy thinking
           then Inr (case thinking of Some t \<Rightarrow> [StreamReasoning t] | None \<Rightarrow> [])
           else
             bindE (optChain delta (\<lambda>d. getProp d ''text'')) (\<lambda>text.
               if truthy text
               then Inr (case text of Some t \<Rightarrow> [StreamChunk t] | None \<Rightarrow> [])
               else Inr []))))
       else Inr [])"

text \<open>
  \<^verbatim>\<open>JSON.parse\<close> is the platform's; it is a parameter, \<open>None\<close> when it throws a SyntaxError.
\<close>

definition AnthropicAdapter_parseSSELine ::
  "(string \<Rightarrow> json option) \<Rightarrow> string \<Rightarrow> JsError + json StreamEvent list" where
  "AnthropicAdapter_parseSSELine JSON_parse jsonLine =
     catchEmpty (case JSON_parse jsonLine of
                   None \<Rightarrow> Inl SyntaxError
                 | Some event \<Rightarrow> anthropicEvents event)"

section \<open>\<^verbatim>\<open>GoogleAdapter.parseSSELine\<close> (google-adapter.ts, lines 169-194)\<close>

text \<open>\<^verbatim>\<open>parsed.candidates?.[0]?.content?.parts\<close>\<close>

definition googleParts :: "json \<Rightarrow> JsError + json option" where
  "googleParts parsed =
     bindE (getProp parsed ''candidates'') (\<lambda>candidates.
     bindE (optChain candidates getIndex0) (\<lambda>candidate.
     bindE (optChain candidate (\<lambda>c. getProp c ''content'')) (\<lambda>content.
       optChain content (\<lambda>c. getProp c ''parts''))))"

text \<open>The loop over the parts, with the event array built so far.\<close>

fun googlePartsLoop :: "json list \<Rightarrow> json StreamEvent list \<Rightarrow> JsError + json StreamEvent list" where
  "googlePartsLoop [] events = Inr events"
| "googlePartsLoop (part # rest) events =
     (case getProp part ''text'' of
        Inl e \<Rightarrow> Inl e
      | Inr text \<Rightarrow>
          if \<not> truthy text then googlePartsLoop rest events
          else (case getProp part ''thought'' of
                  Inl e \<Rightarrow> Inl e
                | Inr thought \<Rightarrow>
                    if truthy thought
                    then googlePartsLoop rest
                           (events @ (case text of Some t \<Rightarrow> [StreamReasoning t] | None \<Rightarrow> []))
                    else googlePartsLoop rest
                           (events @ (case text of Some t \<Rightarrow> [StreamChunk t] | None \<Rightarrow> []))))"

definition googleEvents :: "json \<Rightarrow> JsError + json StreamEvent list" where
  "googleEvents parsed =
     bindE (googleParts parsed) (\<lambda>parts.
       if \<not> truthy parts then Inr []
       else (case parts of
               None \<Rightarrow> Inr []
             | Some ps \<Rightarrow> bindE (iterate ps) (\<lambda>elements. googlePartsLoop elements [])))"

definition GoogleAdapter_parseSSELine ::
  "(string \<Rightarrow> json option) \<Rightarrow> string \<Rightarrow> JsError + json StreamEvent list" where
  "GoogleAdapter_parseSSELine JSON_parse jsonLine =
     catchEmpty (case JSON_parse jsonLine of
                   None \<Rightarrow> Inl SyntaxError
                 | Some parsed \<Rightarrow> googleEvents parsed)"

text \<open>
  A \<^verbatim>\<open>JSON.parse\<close> behaviour for examples: the given line parses to the given value,
  every other string is rejected.
\<close>

abbreviation parsesTo :: "string \<Rightarrow> json \<Rightarrow> string \<Rightarrow> json option" where
  "parsesTo line v \<equiv> (\<lambda>s. if s = line then Some v else None)"

section \<open>The conversation store (conversation-manager)\<close>

record ConversationMeta =
  conv_id :: string
  conv_title :: string
  conv_modelId :: "string option"
  conv_channelId :: "string option"
  conv_createdAt :: int
  conv_updatedAt :: int
  conv_contextDividers :: "string list option"
  conv_contextLength :: ContextLength
  conv_pinned :: "bool option"

text \<open>
  The \<^verbatim>\<open>updates\<close> argument of \<^verbatim>\<open>updateConversationMeta\<close>, a partial record: \<open>None\<close> is a
  key that is not present.
\<close>

record MetaUpdates =
  upd_title :: "string option"
  upd_modelId :: "string option"
  upd_channelId :: "string option"
  upd_contextDividers :: "string list option"
  upd_contextLength :: "ContextLength option"
  upd_pinned :: "bool option"

definition noUpdates :: MetaUpdates where
  "noUpdates = \<lparr>upd_title = None, upd_modelId = None, upd_channelId = None,
     upd_contextDividers = None, upd_contextLength = None, upd_pinned = None\<rparr>"

text \<open>
  Events pushed to the renderer with \<^verbatim>\<open>webContents.send\<close>. The error texts of the source
  are Chinese string literals; each is a constructor here: \<open>ChannelNotFound\<close> and
  \<open>DecryptFailed\<close> are the two configuration errors of \<^verbatim>\<open>sendMessage\<close>, \<open>AppendFailed\<close>,
  \<open>SaveFailed\<close> and \<open>WriteIndexFailed\<close> the messages of the errors the store throws,
  \<open>ConversationNotFound\<close> that of an unknown conversation id, \<open>UnknownError\<close> the text
  used for a thrown value that is not an \<^verbatim>\<open>Error\<close>, and \<open>OtherMessage\<close> any other
  \<^verbatim>\<open>error.message\<close>.
\<close>

datatype ErrorText =
    ChannelNotFound
  | DecryptFailed
  | AppendFailed
  | SaveFailed
  | WriteIndexFailed
  | ConversationNotFound string
  | UnknownError
  | OtherMessage string

text \<open>A thrown value: an \<^verbatim>\<open>Error\<close> with its message, or something else.\<close>

datatype Thrown = ErrorObject ErrorText | NonError

datatype IpcEvent =
    STREAM_CHUNK string string
  | STREAM_REASONING string string
  | STREAM_COMPLETE string string "string option"
  | STREAM_ERROR string ErrorText

text \<open>
  The input of \<^verbatim>\<open>adapter.buildStreamRequest\<close> (\<^verbatim>\<open>StreamRequestInput\<close> of
  \<^verbatim>\<open>providers/types.ts\<close>).
\<close>

record ImageAttachmentData =
  img_mediaType :: string
  img_data :: string

record StreamRequestInput =
  req_baseUrl :: string
  req_apiKey :: string
  req_modelId :: string
  req_history :: "ChatMessage list"
  req_userMessage :: string
  req_systemMessage :: "string option"
  req_attachments :: "FileAttachment list option"
  req_readImageAttachments :: "FileAttachment list option \<Rightarrow> ImageAttachmentData list"
  req_thinkingEnabled :: "bool option"

text \<open>
  The state the chat service reads and writes: the index file \<^verbatim>\<open>conversations.json\<close> as
  \<^verbatim>\<open>readIndex\<close> returns it, the message log of each conversation as
  \<^verbatim>\<open>getConversationMessages\<close> returns it (a missing file is the empty list), the events
  sent to the renderer so far, the conversation ids with a registered AbortController,
  and the inputs the chat service has prepared for \<^verbatim>\<open>adapter.buildStreamRequest\<close>
  (lines 166-176) so far, each with the provider of its channel.
\<close>

record World =
  index :: "ConversationMeta list"
  logs :: "string \<Rightarrow> ChatMessage list"
  sent :: "IpcEvent list"
  activeControllers :: "string set"
  requests :: "(string \<times> StreamRequestInput) list"

definition getConversationMessages :: "string \<Rightarrow> World \<Rightarrow> ChatMessage list" where
  "getConversationMessages i w = logs w i"

text \<open>
  \<^verbatim>\<open>appendMessage\<close> (lines 525-535). The first argument tells whether the platform's
  \<^verbatim>\<open>appendFileSync\<close> succeeds; when it throws, the function throws its own error.
\<close>

definition appendMessage :: "bool \<Rightarrow> string \<Rightarrow> ChatMessage \<Rightarrow> World \<Rightarrow> Thrown + World" where
  "appendMessage appendFileOk i message w =
     (if appendFileOk
      then Inr (w\<lparr>logs := (logs w)(i := logs w i @ [message])\<rparr>)
      else Inl (ErrorObject AppendFailed))"


text \<open>The object spread \<^verbatim>\<open>{ ...existing, ...updates, updatedAt: Date.now() }\<close>.\<close>

definition applyUpdates :: "ConversationMeta \<Rightarrow> MetaUpdates \<Rightarrow> int \<Rightarrow> ConversationMeta" where
  "applyUpdates existing updates now =
     existing\<lparr>
       conv_title := (case upd_title updates of Some t \<Rightarrow> t | None \<Rightarrow> conv_title existing),
       conv_modelId := (case upd_modelId updates of Some m \<Rightarrow> Some m | None \<Rightarrow> conv_modelId existing),
       conv_channelId :=
         (case upd_channelId updates of Some c \<Rightarrow> Some c | None \<Rightarrow> conv_channelId existing),
       conv_contextDividers :=
         (case upd_contextDividers updates of Some d \<Rightarrow> Some d
          | None \<Rightarrow> conv_contextDividers existing),
       conv_contextLength :=
         (case upd_contextLength updates of Some l \<Rightarrow> l | None \<Rightarrow> conv_contextLength existing),
       conv_pinned := (case upd_pinned updates of Some p \<Rightarrow> Some p | None \<Rightarrow> conv_pinned existing),
       conv_updatedAt := now\<rparr>"

text \<open>
  \<^verbatim>\<open>updateConversationMeta\<close> (lines 564-587). \<open>writeIndexOk\<close> tells whether writing the
  index file succeeds, \<open>now\<close> is the value of \<^verbatim>\<open>Date.now()\<close> at the call.
\<close>

definition updateConversationMeta ::
  "bool \<Rightarrow> int \<Rightarrow> string \<Rightarrow> MetaUpdates \<Rightarrow> World \<Rightarrow> Thrown + (ConversationMeta \<times> World)" where
  "updateConversationMeta writeIndexOk now i updates w =
     (case findIndex (\<lambda>c. conv_id c = i) (index w) of
        None \<Rightarrow> Inl (ErrorObject (ConversationNotFound i))
      | Some idx \<Rightarrow>
          let existing = index w ! idx;
              updated = applyUpdates existing updates now
          in if writeIndexOk
             then Inr (updated, w\<lparr>index := (index w)[idx := updated]\<rparr>)
             else Inl (ErrorObject WriteIndexFailed))"

section \<open>Anthropic message conversion (anthropic-adapter.ts, lines 63-125)\<close>

datatype AnthropicContentBlock =
    ImageBlock string string
  | TextBlock string

datatype AnthropicContent =
    Text string
  | Blocks "AnthropicContentBlock list"

datatype AnthropicRole = RoleUser | RoleAssistant

record AnthropicMessage =
  am_role :: AnthropicRole
  am_content :: AnthropicContent

definition buildImageBlocks :: "ImageAttachmentData list \<Rightarrow> AnthropicContentBlock list" where
  "buildImageBlocks imageData = map (\<lambda>img. ImageBlock (img_mediaType img) (img_data img)) imageData"

definition buildMessageContent :: "string \<Rightarrow> ImageAttachmentData list \<Rightarrow> AnthropicContent" where
  "buildMessageContent text imageData =
     (if length imageData = 0 then Text text
      else Blocks (buildImageBlocks imageData @ (if text \<noteq> [] then [TextBlock text] else [])))"

definition toAnthropicMessage ::
  "(FileAttachment list option \<Rightarrow> ImageAttachmentData list) \<Rightarrow> ChatMessage \<Rightarrow> AnthropicMessage" where
  "toAnthropicMessage readImageAttachments msg =
     (let role = (if msg_role msg = Assistant then RoleAssistant else RoleUser)
      in if msg_role msg = User \<and>
            (case msg_attachments msg of Some atts \<Rightarrow> length atts > 0 | None \<Rightarrow> False)
         then \<lparr>am_role = role,
               am_content = buildMessageContent (msg_content msg)
                              (readImageAttachments (msg_attachments msg))\<rparr>
         else \<lparr>am_role = role, am_content = Text (msg_content msg)\<rparr>)"

definition toAnthropicMessages :: "StreamRequestInput \<Rightarrow> AnthropicMessage list" where
  "toAnthropicMessages input =
     map (toAnthropicMessage (req_readImageAttachments input))
         (filter (\<lambda>msg. msg_role msg \<noteq> System) (req_history input))
     @ [\<lparr>am_role = RoleUser,
          am_content = buildMessageContent (req_userMessage input)
                         (req_readImageAttachments input (req_attachments input))\<rparr>]"

section \<open>The chat turn: \<^verbatim>\<open>sendMessage\<close> (chat-service.ts, lines 108-275)\<close>

record Channel =
  ch_id :: string
  ch_provider :: string
  ch_baseUrl :: string

record ChatSendInput =
  in_conversationId :: string
  in_userMessage :: string
  in_channelId :: string
  in_modelId :: string
  in_systemMessage :: "string option"
  in_contextLength :: ContextLength
  in_contextDividers :: "string list option"
  in_attachments :: "FileAttachment list option"
  in_thinkingEnabled :: "bool option"

text \<open>
  The collaborators of the chat service whose code is in other modules:
  \<^verbatim>\<open>listChannels\<close> and \<^verbatim>\<open>decryptApiKey\<close> of the channel manager (\<open>None\<close>: it throws),
  \<^verbatim>\<open>isImageAttachment\<close> and \<^verbatim>\<open>readAttachmentAsBase64\<close> of the attachment service.
\<close>

record Platform =
  listChannels :: "Channel list"
  decryptApiKey :: "string \<Rightarrow> string option"
  isImageAttachment :: "string \<Rightarrow> bool"
  readAttachmentAsBase64 :: "string \<Rightarrow> string"

text \<open>
  What \<^verbatim>\<open>getAdapter(provider).buildStreamRequest(input)\<close> followed by \<^verbatim>\<open>streamSSE\<close> does in
  one turn, as the chat service observes it: the events handed to \<^verbatim>\<open>onEvent\<close>, in order;
  then either the returned \<^verbatim>\<open>{content, reasoning}\<close> or a thrown value; and the value of
  \<^verbatim>\<open>controller.signal.aborted\<close> when the \<^verbatim>\<open>catch\<close> block reads it. A cancelled turn is one
  whose stream throws with the signal aborted.
\<close>

datatype StreamResult = Returned string string | Threw Thrown

record StreamRun =
  run_events :: "string StreamEvent list"
  run_result :: StreamResult
  run_aborted :: bool

text \<open>
  The outcomes of the other external calls of one execution of \<^verbatim>\<open>sendMessage\<close>, one field
  for each call site: the results of \<^verbatim>\<open>randomUUID()\<close> and \<^verbatim>\<open>Date.now()\<close> and whether the
  file append succeeds, for the user message (lines 142-149), the assistant message
  (lines 204-213) and the partial message (lines 234-244); the clock value and the
  success of the index write of \<^verbatim>\<open>updateConversationMeta\<close>; and the stream.
\<close>

record TurnEnv =
  userMsgId :: string
  userCreatedAt :: int
  userAppendOk :: bool
  streamSSE :: "string \<Rightarrow> StreamRequestInput \<Rightarrow> StreamRun"
  assistantMsgId :: string
  assistantCreatedAt :: int
  assistantAppendOk :: bool
  partialMsgId :: string
  partialCreatedAt :: int
  partialAppendOk :: bool
  metaNow :: int
  metaWriteOk :: bool

text \<open>\<^verbatim>\<open>getImageAttachmentData\<close> (lines 39-48), the reader injected into the adapters.\<close>

definition getImageAttachmentData ::
  "Platform \<Rightarrow> FileAttachment list option \<Rightarrow> ImageAttachmentData list" where
  "getImageAttachmentData p attachments =
     (case attachments of
        None \<Rightarrow> []
      | Some atts \<Rightarrow>
          if length atts = 0 then []
          else map (\<lambda>att. \<lparr>img_mediaType = att_mediaType att,
                             img_data = readAttachmentAsBase64 p (att_localPath att)\<rparr>)
                   (filter (\<lambda>att. isImageAttachment p (att_mediaType att)) atts))"

definition send :: "IpcEvent \<Rightarrow> World \<Rightarrow> World" where
  "send e w = w\<lparr>sent := sent w @ [e]\<rparr>"

text \<open>
  The \<^verbatim>\<open>onEvent\<close> callback (lines 182-200) on the two accumulators and the world;
  \<^verbatim>\<open>error\<close> and \<^verbatim>\<open>done\<close> events fall through the \<^verbatim>\<open>switch\<close>.
\<close>

fun onEvent :: "string \<Rightarrow> string \<times> string \<times> World \<Rightarrow> string StreamEvent \<Rightarrow> string \<times> string \<times> World" where
  "onEvent conversationId (accumulatedContent, accumulatedReasoning, w) (StreamChunk delta) =
     (accumulatedContent @ delta, accumulatedReasoning, send (STREAM_CHUNK conversationId delta) w)"
| "onEvent conversationId (accumulatedContent, accumulatedReasoning, w) (StreamReasoning delta) =
     (accumulatedContent, accumulatedReasoning @ delta,
      send (STREAM_REASONING conversationId delta) w)"
| "onEvent conversationId (accumulatedContent, accumulatedReasoning, w) (StreamError e) =
     (accumulatedContent, accumulatedReasoning, w)"
| "onEvent conversationId (accumulatedContent, accumulatedReasoning, w) StreamDone =
     (accumulatedContent, accumulatedReasoning, w)"

text \<open>The argument of \<^verbatim>\<open>adapter.buildStreamRequest\<close> (lines 166-176).\<close>

definition streamRequestInput ::
  "Platform \<Rightarrow> ChatSendInput \<Rightarrow> Channel \<Rightarrow> string \<Rightarrow> ChatMessage list \<Rightarrow> StreamRequestInput" where
  "streamRequestInput p input channel apiKey filteredHistory =
     \<lparr>req_baseUrl = ch_baseUrl channel, req_apiKey = apiKey,
      req_modelId = in_modelId input, req_history = filteredHistory,
      req_userMessage = in_userMessage input,
      req_systemMessage = in_systemMessage input,
      req_attachments = in_attachments input,
      req_readImageAttachments = getImageAttachmentData p,
      req_thinkingEnabled = in_thinkingEnabled input\<rparr>"

text \<open>The user message of step 3 (lines 142-148).\<close>

definition userMsg :: "TurnEnv \<Rightarrow> ChatSendInput \<Rightarrow> ChatMessage" where
  "userMsg env input =
     \<lparr>msg_id = userMsgId env, msg_role = User,
      msg_content = in_userMessage input, msg_createdAt = userCreatedAt env,
      msg_attachments =
        (case in_attachments input of
           Some atts \<Rightarrow> if length atts > 0 then Some atts else None
         | None \<Rightarrow> None),
      msg_model = None, msg_reasoning = None, msg_stopped = None\<rparr>"

text \<open>The partial assistant message of the cancellation branch (lines 235-243).\<close>

definition partialMsg :: "TurnEnv \<Rightarrow> ChatSendInput \<Rightarrow> string \<Rightarrow> string \<Rightarrow> ChatMessage" where
  "partialMsg env input accumulatedContent accumulatedReasoning =
     \<lparr>msg_id = partialMsgId env, msg_role = Assistant,
      msg_content = accumulatedContent, msg_createdAt = partialCreatedAt env,
      msg_attachments = None, msg_model = Some (in_modelId input),
      msg_reasoning =
        (if accumulatedReasoning \<noteq> [] then Some accumulatedReasoning else None),
      msg_stopped = Some True\<rparr>"

text \<open>The assistant message of step 7 (lines 204-212).\<close>

definition assistantMsg :: "TurnEnv \<Rightarrow> ChatSendInput \<Rightarrow> string \<Rightarrow> string \<Rightarrow> ChatMessage" where
  "assistantMsg env input content reasoning =
     \<lparr>msg_id = assistantMsgId env, msg_role = Assistant, msg_content = content,
      msg_createdAt = assistantCreatedAt env, msg_attachments = None,
      msg_model = Some (in_modelId input),
      msg_reasoning = (if reasoning \<noteq> [] then Some reasoning else None),
      msg_stopped = None\<rparr>"

text \<open>\<^verbatim>\<open>try { updateConversationMeta(conversationId, {}) } catch { }\<close>\<close>

definition touchMeta :: "TurnEnv \<Rightarrow> string \<Rightarrow> World \<Rightarrow> World" where
  "touchMeta env conversationId w =
     (case updateConversationMeta (metaWriteOk env) (metaNow env) conversationId noUpdates w of
        Inl e \<Rightarrow> w
      | Inr (updated, w') \<Rightarrow> w')"

text \<open>Step 7 (lines 203-226), after \<^verbatim>\<open>streamSSE\<close> has returned.\<close>

definition saveAssistant :: "TurnEnv \<Rightarrow> ChatSendInput \<Rightarrow> string \<Rightarrow> string \<Rightarrow> World \<Rightarrow> Thrown + World" where
  "saveAssistant env input content reasoning w =
     (case appendMessage (assistantAppendOk env) (in_conversationId input)
             (assistantMsg env input content reasoning) w of
        Inl e \<Rightarrow> Inl e
      | Inr w1 \<Rightarrow>
          Inr (send (STREAM_COMPLETE (in_conversationId input) (in_modelId input)
                       (Some (assistantMsgId env)))
                 (touchMeta env (in_conversationId input) w1)))"

text \<open>
  The \<^verbatim>\<open>catch\<close> block (lines 227-271). The result pairs the value that leaves the block
  uncaught, if any, with the world.
\<close>

definition onCatch ::
  "TurnEnv \<Rightarrow> ChatSendInput \<Rightarrow> bool \<Rightarrow> Thrown \<Rightarrow> string \<Rightarrow> string \<Rightarrow> World \<Rightarrow> Thrown option \<times> World" where
  "onCatch env input aborted error accumulatedContent accumulatedReasoning w =
     (if aborted
      then
        (if accumulatedContent \<noteq> []
         then
           (case appendMessage (partialAppendOk env) (in_conversationId input)
                   (partialMsg env input accumulatedContent accumulatedReasoning) w of
              Inl e \<Rightarrow> (Some e, w)
            | Inr w1 \<Rightarrow>
                (None, send (STREAM_COMPLETE (in_conversationId input) (in_modelId input)
                               (Some (partialMsgId env)))
                         (touchMeta env (in_conversationId input) w1)))
         else (None, send (STREAM_COMPLETE (in_conversationId input) (in_modelId input) None) w))
      else (None, send (STREAM_ERROR (in_conversationId input)
                          (case error of ErrorObject message \<Rightarrow> message | NonError \<Rightarrow> UnknownError))
                    w))"

text \<open>Steps 4 to 7 with the \<^verbatim>\<open>try\<close>, \<^verbatim>\<open>catch\<close> and \<^verbatim>\<open>finally\<close> blocks (lines 151-274).\<close>

definition streamTurn ::
  "Platform \<Rightarrow> TurnEnv \<Rightarrow> ChatSendInput \<Rightarrow> Channel \<Rightarrow> string \<Rightarrow> World \<Rightarrow> Thrown option \<times> World" where
  "streamTurn p env input channel apiKey w =
     (let conversationId = in_conversationId input;
          fullHistory = getConversationMessages conversationId w;
          filteredHistory =
            filterHistory fullHistory (in_contextDividers input) (in_contextLength input);
          w1 = w\<lparr>activeControllers := insert conversationId (activeControllers w)\<rparr>;
          request = streamRequestInput p input channel apiKey filteredHistory;
          w2 = w1\<lparr>requests := requests w1 @ [(ch_provider channel, request)]\<rparr>;
          run = streamSSE env (ch_provider channel) request;
          (accumulatedContent, accumulatedReasoning, w3) =
            foldl (onEvent conversationId) ([], [], w2) (run_events run);
          (thrown, w4) =
            (case run_result run of
               Returned content reasoning \<Rightarrow>
                 (case saveAssistant env input content reasoning w3 of
                    Inr w' \<Rightarrow> (None, w')
                  | Inl e \<Rightarrow>
                      onCatch env input (run_aborted run) e accumulatedContent
                        accumulatedReasoning w3)
             | Threw e \<Rightarrow>
                 onCatch env input (run_aborted run) e accumulatedContent accumulatedReasoning w3)
      in (thrown, w4\<lparr>activeControllers := activeControllers w4 - {conversationId}\<rparr>))"

text \<open>
  \<^verbatim>\<open>sendMessage\<close>. The result pairs the value the returned promise is rejected with, if
  any, with the world after the call.
\<close>

definition sendMessage :: "Platform \<Rightarrow> TurnEnv \<Rightarrow> ChatSendInput \<Rightarrow> World \<Rightarrow> Thrown option \<times> World" where
  "sendMessage p env input w =
     (case find (\<lambda>c. ch_id c = in_channelId input) (listChannels p) of
        None \<Rightarrow> (None, send (STREAM_ERROR (in_conversationId input) ChannelNotFound) w)
      | Some channel \<Rightarrow>
          (case decryptApiKey p (in_channelId input) of
             None \<Rightarrow> (None, send (STREAM_ERROR (in_conversationId input) DecryptFailed) w)
           | Some apiKey \<Rightarrow>
               (case appendMessage (userAppendOk env) (in_conversationId input)
                       (userMsg env input) w of
                  Inl e \<Rightarrow> (Some e, w)
                | Inr w1 \<Rightarrow> streamTurn p env input channel apiKey w1)))"

text \<open>The number of terminal events (completion or error) among the events of a list.\<close>

fun isTerminal :: "IpcEvent \<Rightarrow> bool" where
  "isTerminal (STREAM_COMPLETE c m i) = True"
| "isTerminal (STREAM_ERROR c e) = True"
| "isTerminal (STREAM_CHUNK c d) = False"
| "isTerminal (STREAM_REASONING c d) = False"

definition terminalCount :: "IpcEvent list \<Rightarrow> nat" where
  "terminalCount events = length (filter isTerminal events)"

text \<open>The text of the chunk events of a stream, and the events relayed to the renderer.\<close>

fun chunkText :: "string StreamEvent list \<Rightarrow> string" where
  "chunkText [] = []"
| "chunkText (StreamChunk delta # events) = delta @ chunkText events"
| "chunkText (e # events) = chunkText events"

fun reasoningText :: "string StreamEvent list \<Rightarrow> string" where
  "reasoningText [] = []"
| "reasoningText (StreamReasoning delta # events) = delta @ reasoningText events"
| "reasoningText (e # events) = reasoningText events"

fun relayed :: "string \<Rightarrow> string StreamEvent list \<Rightarrow> IpcEvent list" where
  "relayed conversationId [] = []"
| "relayed conversationId (StreamChunk delta # events) =
     STREAM_CHUNK conversationId delta # relayed conversationId events"
| "relayed conversationId (StreamReasoning delta # events) =
     STREAM_REASONING conversationId delta # relayed conversationId events"
| "relayed conversationId (e # events) = relayed conversationId events"

section \<open>Title generation: \<^verbatim>\<open>generateTitle\<close> (chat-service.ts, lines 291-345)\<close>

text \<open>
  Title text is trimmed, matched against a character class and cut by length, so it is
  modelled as JavaScript has it: a list of UTF-16 code units. \<open>codeUnits\<close> writes an
  ASCII literal in that form.
\<close>

type_synonym utf16 = "nat list"

definition codeUnits :: "string \<Rightarrow> utf16" where
  "codeUnits s = map of_char s"

text \<open>
  \<^verbatim>\<open>String.prototype.trim\<close> removes white space and line terminators from both ends:
  TAB, LF, VT, FF, CR, SP, NBSP, U+1680, U+2000 to U+200A, U+2028, U+2029, U+202F,
  U+205F, U+3000 and U+FEFF.
\<close>

definition isWhiteSpace :: "nat \<Rightarrow> bool" where
  "isWhiteSpace c \<longleftrightarrow>
     c \<in> {9, 10, 11, 12, 13, 32, 160, 5760, 8232, 8233, 8239, 8287, 12288, 65279} \<or>
     (8192 \<le> c \<and> c \<le> 8202)"

definition trim :: "utf16 \<Rightarrow> utf16" where
  "trim s = rev (dropWhile isWhiteSpace (rev (dropWhile isWhiteSpace s)))"

text \<open>
  The character class of the regular expression of line 339 holds the double quote
  (code unit 34) and the single quote (39). The global replace deletes the maximal run of
  such characters at the start of the string and the one at its end.
\<close>

definition isQuote :: "nat \<Rightarrow> bool" where
  "isQuote c \<longleftrightarrow> c = 34 \<or> c = 39"

definition stripQuotes :: "utf16 \<Rightarrow> utf16" where
  "stripQuotes s = rev (dropWhile isQuote (rev (dropWhile isQuote s)))"

definition MAX_TITLE_LENGTH :: nat where
  "MAX_TITLE_LENGTH = 20"

text \<open>The code units of the Chinese prompt text of line 292.\<close>

definition TITLE_PROMPT :: utf16 where
  "TITLE_PROMPT =
     [26681, 25454, 29992, 25143, 30340, 31532, 19968, 26465, 28040, 24687, 65292,
      29983, 25104, 19968, 20010, 31616, 30701, 30340, 23545, 35805, 26631, 39064,
      65288, 49, 48, 23383, 20197, 20869, 65289, 12290, 21482, 36755, 20986, 26631,
      39064, 65292, 19981, 35201, 26377, 20219, 20309, 20854, 20182, 20869, 23481,
      12289, 26631, 28857, 31526, 21495, 25110, 24341, 21495, 12290, 10, 10, 29992,
      25143, 28040, 24687, 65306]"

record GenerateTitleInput =
  gt_userMessage :: utf16
  gt_channelId :: string
  gt_modelId :: string

record TitleRequestInput =
  tr_baseUrl :: string
  tr_apiKey :: string
  tr_modelId :: string
  tr_prompt :: utf16

text \<open>The argument of \<^verbatim>\<open>adapter.buildTitleRequest\<close> (lines 328-333).\<close>

definition titleRequestInput :: "Channel \<Rightarrow> string \<Rightarrow> GenerateTitleInput \<Rightarrow> TitleRequestInput" where
  "titleRequestInput channel apiKey input =
     \<lparr>tr_baseUrl = ch_baseUrl channel, tr_apiKey = apiKey, tr_modelId = gt_modelId input,
      tr_prompt = TITLE_PROMPT @ gt_userMessage input\<rparr>"

text \<open>Lines 336-340: the title returned by \<^verbatim>\<open>fetchTitle\<close>, \<open>None\<close> for \<^verbatim>\<open>null\<close>.\<close>

definition cleanTitle :: "utf16 option \<Rightarrow> utf16 option" where
  "cleanTitle title =
     (case title of
        None \<Rightarrow> None
      | Some t \<Rightarrow>
          if t = [] then None
          else (let cleaned = trim (stripQuotes (trim t));
                    cut = take MAX_TITLE_LENGTH cleaned
                in if cut = [] then None else Some cut))"

text \<open>\<^verbatim>\<open>try { body } catch { return null }\<close>\<close>

fun catchNull :: "'e + 'a option \<Rightarrow> 'e + 'a option" where
  "catchNull (Inl e) = Inr None"
| "catchNull (Inr r) = Inr r"

text \<open>
  \<^verbatim>\<open>generateTitle\<close>. The parameter \<open>fetchTitle\<close> stands for the calls
  \<^verbatim>\<open>getAdapter(provider).buildTitleRequest(input)\<close> and \<^verbatim>\<open>fetchTitle(request, adapter)\<close> of
  the \<^verbatim>\<open>try\<close> block: they throw, or return the title text or \<^verbatim>\<open>null\<close>. The result is the
  value of the returned promise, \<open>Inl\<close> if it were rejected.
\<close>

definition generateTitle ::
  "Platform \<Rightarrow> (string \<Rightarrow> TitleRequestInput \<Rightarrow> Thrown + utf16 option) \<Rightarrow> GenerateTitleInput
     \<Rightarrow> Thrown + utf16 option" where
  "generateTitle p fetchTitle input =
     (case find (\<lambda>c. ch_id c = gt_channelId input) (listChannels p) of
        None \<Rightarrow> Inr None
      | Some channel \<Rightarrow>
          (case decryptApiKey p (gt_channelId input) of
             None \<Rightarrow> Inr None
           | Some apiKey \<Rightarrow>
               catchNull
                 (bindE (fetchTitle (ch_provider channel) (titleRequestInput channel apiKey input))
                    (\<lambda>title. Inr (cleanTitle title)))))"

text \<open>The error events among the events of a list.\<close>

fun isErrorEvent :: "IpcEvent \<Rightarrow> bool" where
  "isErrorEvent (STREAM_ERROR c e) = True"
| "isErrorEvent (STREAM_COMPLETE c m i) = False"
| "isErrorEvent (STREAM_CHUNK c d) = False"
| "isErrorEvent (STREAM_REASONING c d) = False"

section \<open>An example turn\<close>

text \<open>
  One Anthropic channel whose key decrypts; a conversation \<open>c1\<close> whose log holds the round
  \<open>user: hi\<close>, \<open>assistant: hello\<close>; a send of \<open>what's 2+2?\<close> with \<open>contextLength = 1\<close> and no
  dividers; a stream that delivers the chunk \<open>4\<close> and returns.
\<close>

definition examplePlatform :: Platform where
  "examplePlatform =
     \<lparr>listChannels = [\<lparr>ch_id = ''ch1'', ch_provider = ''anthropic'', ch_baseUrl = ''https://api''\<rparr>],
      decryptApiKey = (\<lambda>i. if i = ''ch1'' then Some ''key'' else None),
      isImageAttachment = (\<lambda>m. False),
      readAttachmentAsBase64 = (\<lambda>path. [])\<rparr>"

definition exampleTurn :: TurnEnv where
  "exampleTurn =
     \<lparr>userMsgId = ''u2'', userCreatedAt = 3, userAppendOk = True,
      streamSSE = (\<lambda>provider request.
         \<lparr>run_events = [StreamChunk ''4''], run_result = Returned ''4'' [], run_aborted = False\<rparr>),
      assistantMsgId = ''a2'', assistantCreatedAt = 4, assistantAppendOk = True,
      partialMsgId = ''a2'', partialCreatedAt = 4, partialAppendOk = True,
      metaNow = 5, metaWriteOk = True\<rparr>"

definition exampleInput :: ChatSendInput where
  "exampleInput =
     \<lparr>in_conversationId = ''c1'', in_userMessage = ''what's 2+2?'', in_channelId = ''ch1'',
      in_modelId = ''model'', in_systemMessage = None, in_contextLength = Num 1,
      in_contextDividers = None, in_attachments = None, in_thinkingEnabled = None\<rparr>"

definition exampleWorld :: World where
  "exampleWorld =
     \<lparr>index = [\<lparr>conv_id = ''c1'', conv_title = ''t'', conv_modelId = None, conv_channelId = None,
                conv_createdAt = 1, conv_updatedAt = 2, conv_contextDividers = None,
                conv_contextLength = Num 1, conv_pinned = None\<rparr>],
      logs = (\<lambda>i. if i = ''c1''
                   then [plainMessage ''u1'' User ''hi'', plainMessage ''a1'' Assistant ''hello'']
                   else []),
      sent = [], activeControllers = {}, requests = []\<rparr>"

text \<open>
  The example turn with a stream that hands over the given events and is then cancelled:
  it throws with the signal aborted.
\<close>

definition cancelledTurn :: "string StreamEvent list \<Rightarrow> TurnEnv" where
  "cancelledTurn events =
     exampleTurn\<lparr>streamSSE := (\<lambda>provider request.
        \<lparr>run_events = events, run_result = Threw (ErrorObject (OtherMessage ''aborted'')),
         run_aborted = True\<rparr>)\<rparr>"

text \<open>A title request on the example channel.\<close>

definition exampleTitleInput :: GenerateTitleInput where
  "exampleTitleInput =
     \<lparr>gt_userMessage = codeUnits ''plan my trip'', gt_channelId = ''ch1'', gt_modelId = ''model''\<rparr>"

section \<open>Properties of the windowing function\<close>

lemma collectRounds_takes:
  "\<exists>k \<le> length xs. collectRounds n xs rc acc = rev (take k xs) @ acc"
proof (induction xs arbitrary: rc acc)
  case Nil
  show ?case by simp
next
  case (Cons msg rest)
  have step: "\<exists>k \<le> length (msg # rest). rev (take j rest) @ (msg # acc) = rev (take k (msg # rest)) @ acc"
    if "j \<le> length rest" for j
    using that by (intro exI [of _ "Suc j"]) simp
  show ?case
  proof (cases "msg_role msg = User \<and> rc + 1 \<ge> n")
    case True
    then have "collectRounds n (msg # rest) rc acc = rev (take 1 (msg # rest)) @ acc"
      by simp
    then show ?thesis
      by (intro exI [of _ 1]) simp
  next
    case False
    then obtain rc' where "collectRounds n (msg # rest) rc acc = collectRounds n rest rc' (msg # acc)"
      by (cases "msg_role msg = User") auto
    moreover obtain j where "j \<le> length rest"
      and "collectRounds n rest rc' (msg # acc) = rev (take j rest) @ (msg # acc)"
      using Cons.IH [of rc' "msg # acc"] by blast
    ultimately show ?thesis
      using step [of j] by metis
  qed
qed

lemma collectRounds_rev_drop:
  "\<exists>k \<le> length ys. collectRounds n (rev ys) 0 [] = drop k ys"
proof -
  obtain j where j: "j \<le> length (rev ys)"
    and eq: "collectRounds n (rev ys) 0 [] = rev (take j (rev ys)) @ []"
    using collectRounds_takes [of "rev ys" n 0 "[]"] by blast
  have "rev (take j (rev ys)) = drop (length ys - j) ys"
    by (simp add: take_rev)
  with eq have "collectRounds n (rev ys) 0 [] = drop (length ys - j) ys"
    by simp
  then show ?thesis
    by (intro exI [of _ "length ys - j"]) simp
qed

lemma collectRounds_userCount:
  "rc < n \<Longrightarrow> int (userCount (collectRounds n xs rc acc)) \<le> int (userCount acc) + (n - rc)"
proof (induction xs arbitrary: rc acc)
  case Nil
  then show ?case by simp
next
  case (Cons msg rest)
  show ?case
  proof (cases "msg_role msg = User")
    case notUser: False
    then have "userCount (msg # acc) = userCount acc"
      by (simp add: userCount_def)
    with notUser Cons.IH [OF Cons.prems, of "msg # acc"] show ?thesis
      by simp
  next
    case isUser: True
    then have cnt: "userCount (msg # acc) = Suc (userCount acc)"
      by (simp add: userCount_def)
    show ?thesis
    proof (cases "rc + 1 \<ge> n")
      case True
      with isUser cnt Cons.prems show ?thesis by simp
    next
      case False
      then have "rc + 1 < n" by simp
      from Cons.IH [OF this, of "msg # acc"] isUser False cnt show ?thesis
        by simp
    qed
  qed
qed

lemma dividerFilter_drop:
  "\<exists>k \<le> length H. dividerFilter H D = drop k H"
proof (cases "\<exists>ds p. D = Some ds \<and> length ds > 0 \<and> findIndex (\<lambda>msg. msg_id msg = last ds) H = Some p")
  case True
  then obtain ds p where "D = Some ds" "length ds > 0"
    "findIndex (\<lambda>msg. msg_id msg = last ds) H = Some p" by blast
  then have eq: "dividerFilter H D = drop (p + 1) H"
    by (simp add: dividerFilter_def)
  show ?thesis
  proof (cases "p + 1 \<le> length H")
    case True
    with eq show ?thesis by blast
  next
    case False
    with eq have "dividerFilter H D = drop (length H) H" by simp
    then show ?thesis by blast
  qed
next
  case False
  then have "dividerFilter H D = drop 0 H"
    by (auto simp: dividerFilter_def split: option.splits)
  then show ?thesis by blast
qed

text \<open>
  Claim C10. For every history \<open>H\<close>, every divider argument \<open>D\<close> and every context-length
  setting \<open>c\<close> (a number, \<^verbatim>\<open>'infinite'\<close> or unset), \<open>filterHistory H D c\<close> is a contiguous
  suffix of \<open>H\<close>: it is \<open>H\<close> with its first \<open>k\<close> messages dropped, so it keeps the order of
  \<open>H\<close>, neither duplicates nor changes a message, and contains every message of \<open>H\<close> that
  comes after one it contains.
\<close>

theorem C10_filterHistory_suffix:
  "(\<exists>k. filterHistory H D c = drop k H) \<and> suffix (filterHistory H D c) H"
proof -
  obtain k where k: "dividerFilter H D = drop k H"
    using dividerFilter_drop [of H D] by blast
  have "\<exists>j. filterHistory H D c = drop j H"
  proof (cases "\<exists>n. c = Num n \<and> n \<ge> 0")
    case False
    then have "filterHistory H D c = dividerFilter H D"
      by (cases c) (auto simp: filterHistory_def)
    with k show ?thesis by metis
  next
    case True
    then obtain n where c: "c = Num n" "n \<ge> 0" by blast
    show ?thesis
    proof (cases "n = 0")
      case True
      with c have "filterHistory H D c = drop (length H) H"
        by (simp add: filterHistory_def)
      then show ?thesis by blast
    next
      case False
      with c have "filterHistory H D c = collectRounds n (rev (dividerFilter H D)) 0 []"
        by (simp add: filterHistory_def)
      moreover obtain j where "collectRounds n (rev (dividerFilter H D)) 0 [] = drop j (dividerFilter H D)"
        using collectRounds_rev_drop by blast
      ultimately have "filterHistory H D c = drop (j + k) H"
        using k by simp
      then show ?thesis by blast
    qed
  qed
  then obtain j where j: "filterHistory H D c = drop j H" by blast
  then have "suffix (filterHistory H D c) H"
    by (simp add: suffix_drop)
  with j show ?thesis by blast
qed

lemma filterHistory_userCount:
  assumes "0 \<le> N"
  shows "int (userCount (filterHistory H D (Num N))) \<le> N"
proof (cases "N = 0")
  case True
  then show ?thesis
    by (simp add: filterHistory_def userCount_def)
next
  case False
  with assms have pos: "0 < N" by simp
  have "userCount [] = 0"
    by (simp add: userCount_def)
  with collectRounds_userCount [OF pos, of "rev (dividerFilter H D)" "[]"]
  have "int (userCount (collectRounds N (rev (dividerFilter H D)) 0 [])) \<le> N"
    by simp
  with pos show ?thesis
    by (simp add: filterHistory_def)
qed

lemma filterHistory_after_divider:
  assumes "D \<noteq> []" and "findIndex (\<lambda>m. msg_id m = last D) H = Some p"
  shows "\<exists>k > p. filterHistory H (Some D) c = drop k H"
proof -
  from assms have filtered: "dividerFilter H (Some D) = drop (p + 1) H"
    by (simp add: dividerFilter_def)
  show ?thesis
  proof (cases "\<exists>n. c = Num n \<and> n \<ge> 0")
    case False
    then have "filterHistory H (Some D) c = dividerFilter H (Some D)"
      by (cases c) (auto simp: filterHistory_def)
    with filtered have "filterHistory H (Some D) c = drop (p + 1) H" by simp
    then show ?thesis
      by (intro exI [of _ "p + 1"]) simp
  next
    case True
    then obtain n where c: "c = Num n" "n \<ge> 0" by blast
    show ?thesis
    proof (cases "n = 0")
      case True
      with c have "filterHistory H (Some D) c = drop (length H + (p + 1)) H"
        by (simp add: filterHistory_def)
      then show ?thesis
        by (intro exI [of _ "length H + (p + 1)"]) simp
    next
      case False
      with c have "filterHistory H (Some D) c = collectRounds n (rev (dividerFilter H (Some D))) 0 []"
        by (simp add: filterHistory_def)
      moreover obtain j where
        "collectRounds n (rev (dividerFilter H (Some D))) 0 [] = drop j (dividerFilter H (Some D))"
        using collectRounds_rev_drop by blast
      ultimately have "filterHistory H (Some D) c = drop (j + (p + 1)) H"
        using filtered by simp
      then show ?thesis
        by (intro exI [of _ "j + (p + 1)"]) simp
    qed
  qed
qed

lemma filterHistory_on_filtered:
  "filterHistory H D c = filterHistory (dividerFilter H D) None c"
  by (simp add: filterHistory_def dividerFilter_def)

text \<open>
  Claim C2, as the code has it. For every history \<open>H\<close>, divider list \<open>D\<close> and integer
  \<open>N \<ge> 0\<close>, \<open>filterHistory H D N\<close> contains at most \<open>N\<close> user-role messages. When the
  last element of \<open>D\<close> is the id of a message of \<open>H\<close>, first at position \<open>p\<close>, the result
  is \<open>H\<close> with more than \<open>p\<close> leading messages dropped, so each of its messages lies
  strictly after position \<open>p\<close>; it is the window of the history that follows position
  \<open>p\<close>. Only the last element of \<open>D\<close> is consulted: when \<open>D\<close> is empty or its last
  element is the id of no message of \<open>H\<close>, the result is the window of \<open>H\<close> without
  dividers, whatever the other ids of \<open>D\<close> are.
\<close>

theorem C2_filterHistory_window:
  "0 \<le> N \<Longrightarrow>
     int (userCount (filterHistory H (Some D) (Num N))) \<le> N \<and>
     (D \<noteq> [] \<and> findIndex (\<lambda>m. msg_id m = last D) H = Some p
        \<longrightarrow> (\<exists>k > p. filterHistory H (Some D) (Num N) = drop k H) \<and>
            filterHistory H (Some D) (Num N) = filterHistory (drop (p + 1) H) None (Num N)) \<and>
     (D = [] \<or> findIndex (\<lambda>m. msg_id m = last D) H = None
        \<longrightarrow> filterHistory H (Some D) (Num N) = filterHistory H None (Num N))"
proof (intro conjI impI)
  assume "0 \<le> N"
  then show "int (userCount (filterHistory H (Some D) (Num N))) \<le> N"
    by (rule filterHistory_userCount)
next
  assume found: "D \<noteq> [] \<and> findIndex (\<lambda>m. msg_id m = last D) H = Some p"
  then show "\<exists>k > p. filterHistory H (Some D) (Num N) = drop k H"
    using filterHistory_after_divider [of D H p "Num N"] by blast
  from found have "dividerFilter H (Some D) = drop (p + 1) H"
    by (simp add: dividerFilter_def)
  then show "filterHistory H (Some D) (Num N) = filterHistory (drop (p + 1) H) None (Num N)"
    using filterHistory_on_filtered [of H "Some D" "Num N"] by simp
next
  assume "D = [] \<or> findIndex (\<lambda>m. msg_id m = last D) H = None"
  then have "dividerFilter H (Some D) = H"
    by (auto simp: dividerFilter_def)
  then show "filterHistory H (Some D) (Num N) = filterHistory H None (Num N)"
    using filterHistory_on_filtered [of H "Some D" "Num N"] by simp
qed

theorem C2_filterHistory_window_witness:
  "(0::int) \<le> 1 \<and> [''m1''] \<noteq> [] \<and>
   findIndex (\<lambda>m. msg_id m = last [''m1''])
     [plainMessage ''m1'' User ''a'', plainMessage ''m2'' Assistant ''b'',
      plainMessage ''m3'' User ''c'', plainMessage ''m4'' User ''d''] = Some 0 \<and>
   int (userCount (filterHistory
     [plainMessage ''m1'' User ''a'', plainMessage ''m2'' Assistant ''b'',
      plainMessage ''m3'' User ''c'', plainMessage ''m4'' User ''d''] (Some [''m1'']) (Num 1))) \<le> 1 \<and>
   filterHistory
     [plainMessage ''m1'' User ''a'', plainMessage ''m2'' Assistant ''b'',
      plainMessage ''m3'' User ''c'', plainMessage ''m4'' User ''d''] (Some [''m1'']) (Num 1)
     = [plainMessage ''m4'' User ''d''] \<and>
   filterHistory
     [plainMessage ''m2'' Assistant ''b'', plainMessage ''m3'' User ''c'',
      plainMessage ''m4'' User ''d''] None (Num 1)
     = [plainMessage ''m4'' User ''d''] \<and>
   findIndex (\<lambda>m. msg_id m = last [''m1'', ''zz''])
     [plainMessage ''m1'' User ''a'', plainMessage ''m2'' Assistant ''b'',
      plainMessage ''m3'' User ''c'', plainMessage ''m4'' User ''d''] = None \<and>
   filterHistory
     [plainMessage ''m1'' User ''a'', plainMessage ''m2'' Assistant ''b'',
      plainMessage ''m3'' User ''c'', plainMessage ''m4'' User ''d''] (Some [''m1'', ''zz'']) (Num 2)
     = [plainMessage ''m3'' User ''c'', plainMessage ''m4'' User ''d''] \<and>
   filterHistory
     [plainMessage ''m1'' User ''a'', plainMessage ''m2'' Assistant ''b'',
      plainMessage ''m3'' User ''c'', plainMessage ''m4'' User ''d''] None (Num 2)
     = [plainMessage ''m3'' User ''c'', plainMessage ''m4'' User ''d'']"
  using C2_filterHistory_window [of 1
     "[plainMessage ''m1'' User ''a'', plainMessage ''m2'' Assistant ''b'',
       plainMessage ''m3'' User ''c'', plainMessage ''m4'' User ''d'']" "[''m1'']" 0]
    C2_filterHistory_window [of 2
     "[plainMessage ''m1'' User ''a'', plainMessage ''m2'' Assistant ''b'',
       plainMessage ''m3'' User ''c'', plainMessage ''m4'' User ''d'']" "[''m1'', ''zz'']" 0]
  by (simp add: filterHistory_def dividerFilter_def userCount_def)

text \<open>
  The claim as the specification words it fails when the last element of \<open>D\<close> is
  dangling while an earlier one is not: with \<open>H = [m1, m2]\<close> and \<open>D = [m1, zz]\<close>, the last
  id of \<open>D\<close> that occurs in \<open>H\<close> is \<open>m1\<close>, at position 0, and the window still is all of
  \<open>H\<close>, message \<open>m1\<close> included.
\<close>

theorem C2_dangling_last_divider_counterexample:
  "filter (\<lambda>d. d \<in> set (map msg_id [plainMessage ''m1'' User ''a'', plainMessage ''m2'' Assistant ''b'']))
      [''m1'', ''zz''] = [''m1''] \<and>
   findIndex (\<lambda>m. msg_id m = ''m1'')
      [plainMessage ''m1'' User ''a'', plainMessage ''m2'' Assistant ''b''] = Some 0 \<and>
   filterHistory [plainMessage ''m1'' User ''a'', plainMessage ''m2'' Assistant ''b'']
      (Some [''m1'', ''zz'']) (Num 5)
     = [plainMessage ''m1'' User ''a'', plainMessage ''m2'' Assistant ''b'']"
  by (simp add: filterHistory_def dividerFilter_def)

section \<open>Properties of the SSE line parsers\<close>

lemma bindE_Inr_iff: "bindE m f = Inr y \<longleftrightarrow> (\<exists>x. m = Inr x \<and> f x = Inr y)"
  by (cases m) simp_all

lemma anthropicEvents_length:
  assumes "anthropicEvents event = Inr events"
  shows "length events \<le> 1"
proof (cases "getProp event ''type'' = Inr (Some (JStr ''content_block_delta''))")
  case False
  with assms have "events = []"
    by (cases "getProp event ''type''") (simp_all add: anthropicEvents_def split: if_splits)
  then show ?thesis by simp
next
  case True
  with assms obtain delta deltaType thinking where
    rest: "(if deltaType = Some (JStr ''thinking_delta'') \<and> truthy thinking
           then Inr (case thinking of Some t \<Rightarrow> [StreamReasoning t] | None \<Rightarrow> [])
           else bindE (optChain delta (\<lambda>d. getProp d ''text'')) (\<lambda>text.
               if truthy text
               then Inr (case text of Some t \<Rightarrow> [StreamChunk t] | None \<Rightarrow> [])
               else Inr [])) = Inr events"
    by (simp add: anthropicEvents_def bindE_Inr_iff) blast
  show ?thesis
  proof (cases "deltaType = Some (JStr ''thinking_delta'') \<and> truthy thinking")
    case True
    with rest have "events = (case thinking of Some t \<Rightarrow> [StreamReasoning t] | None \<Rightarrow> [])"
      by simp
    then show ?thesis by (cases thinking) simp_all
  next
    case False
    with rest obtain tx where
      "(if truthy tx then Inr (case tx of Some t \<Rightarrow> [StreamChunk t] | None \<Rightarrow> []) else Inr [])
         = (Inr events :: JsError + json StreamEvent list)"
      by (simp add: bindE_Inr_iff) blast
    then have "events = [] \<or> events = (case tx of Some t \<Rightarrow> [StreamChunk t] | None \<Rightarrow> [])"
      by (cases "truthy tx") auto
    then show ?thesis by (cases tx) auto
  qed
qed

lemma catchEmpty_total: "\<exists>events. catchEmpty x = Inr events"
  by (cases x) simp_all

lemma catchEmpty_Inr: "catchEmpty x = Inr events \<Longrightarrow> x = Inr events \<or> events = []"
  by (cases x) simp_all

lemma googlePartsLoop_step:
  "googlePartsLoop (part # rest) acc = Inr events \<Longrightarrow>
   \<exists>acc'. googlePartsLoop rest acc' = Inr events \<and> length acc' \<le> length acc + 1"
proof (cases "getProp part ''text''")
  case (Inl e)
  assume "googlePartsLoop (part # rest) acc = Inr events"
  with Inl show ?thesis by simp
next
  case hasText: (Inr tx)
  assume loopEq: "googlePartsLoop (part # rest) acc = Inr events"
  show ?thesis
  proof (cases "truthy tx")
    case False
    with hasText loopEq have "googlePartsLoop rest acc = Inr events" by simp
    then show ?thesis by (intro exI [of _ acc]) simp
  next
    case True
    then obtain t where t: "tx = Some t" by (cases tx) simp_all
    show ?thesis
    proof (cases "getProp part ''thought''")
      case (Inl e)
      with hasText True loopEq show ?thesis by simp
    next
      case (Inr thought)
      show ?thesis
      proof (cases "truthy thought")
        case True
        with hasText t \<open>truthy tx\<close> Inr loopEq
        have "googlePartsLoop rest (acc @ [StreamReasoning t]) = Inr events" by simp
        then show ?thesis by (intro exI [of _ "acc @ [StreamReasoning t]"]) simp
      next
        case False
        with hasText t \<open>truthy tx\<close> Inr loopEq
        have "googlePartsLoop rest (acc @ [StreamChunk t]) = Inr events" by simp
        then show ?thesis by (intro exI [of _ "acc @ [StreamChunk t]"]) simp
      qed
    qed
  qed
qed

lemma googlePartsLoop_length:
  "googlePartsLoop parts acc = Inr events \<Longrightarrow> length events \<le> length acc + length parts"
proof (induction parts arbitrary: acc)
  case Nil
  then show ?case by simp
next
  case (Cons part rest)
  from googlePartsLoop_step [OF Cons.prems]
  obtain acc' where "googlePartsLoop rest acc' = Inr events" "length acc' \<le> length acc + 1"
    by blast
  with Cons.IH [of acc'] show ?case by simp
qed

lemma googlePartsLoop_characters:
  "googlePartsLoop (map (\<lambda>c. JStr [c]) s) acc = Inr acc"
  by (induction s) simp_all

lemma googleEvents_array:
  assumes "googleParts v = Inr (Some (JArr ps))" and "googleEvents v = Inr events"
  shows "length events \<le> length ps"
proof -
  from assms have "googlePartsLoop ps [] = Inr events"
    by (simp add: googleEvents_def)
  from googlePartsLoop_length [OF this] show ?thesis by simp
qed

lemma googleEvents_no_array:
  assumes "\<forall>ps. googleParts v \<noteq> Inr (Some (JArr ps))"
  shows "catchEmpty (googleEvents v) = Inr []"
proof (cases "googleParts v")
  case (Inl e)
  then show ?thesis by (simp add: googleEvents_def)
next
  case (Inr parts)
  show ?thesis
  proof (cases parts)
    case None
    with Inr show ?thesis by (simp add: googleEvents_def)
  next
    case (Some p)
    with Inr assms have "\<forall>ps. p \<noteq> JArr ps" by simp
    then have "catchEmpty (bindE (iterate p) (\<lambda>elements. googlePartsLoop elements [])) = Inr []"
      by (cases p) (simp_all add: googlePartsLoop_characters)
    with Inr Some show ?thesis by (simp add: googleEvents_def)
  qed
qed





text \<open>
  Claim C7, as the code has it. The Anthropic adapter returns zero or one event for a
  line. The Google adapter returns at most one event for each element of the frame's
  \<^verbatim>\<open>parts\<close> array, and none when the line has no such array, so the number of events of
  one line has no fixed bound. A Google frame with a thought part and a text part gives
  two events, a reasoning event and then a chunk event.
\<close>

theorem C7_parseSSELine_event_counts:
  \<open>(\<exists>events. AnthropicAdapter_parseSSELine JSON_parse jsonLine = Inr events \<and> length events \<le> 1) \<and>
   (\<exists>events. GoogleAdapter_parseSSELine JSON_parse jsonLine = Inr events \<and>
      (JSON_parse jsonLine = Some v \<and> googleParts v = Inr (Some (JArr ps))
         \<longrightarrow> length events \<le> length ps) \<and>
      (JSON_parse jsonLine = None \<or>
       JSON_parse jsonLine = Some v \<and> (\<forall>qs. googleParts v \<noteq> Inr (Some (JArr qs)))
         \<longrightarrow> events = [])) \<and>
   GoogleAdapter_parseSSELine
     (parsesTo ''{"candidates":[{"content":{"parts":[{"text":"hm","thought":true},{"text":"4"}]}}]}''
        (JObj [(''candidates'', JArr [JObj [(''content'', JObj [(''parts'',
           JArr [JObj [(''text'', JStr ''hm''), (''thought'', JBool True)],
                 JObj [(''text'', JStr ''4'')]])])]])]))
     ''{"candidates":[{"content":{"parts":[{"text":"hm","thought":true},{"text":"4"}]}}]}''
     = Inr [StreamReasoning (JStr ''hm''), StreamChunk (JStr ''4'')]\<close>
proof (intro conjI)
  obtain events where ev: "AnthropicAdapter_parseSSELine JSON_parse jsonLine = Inr events"
    unfolding AnthropicAdapter_parseSSELine_def using catchEmpty_total by blast
  have "length events \<le> 1"
  proof (cases "JSON_parse jsonLine")
    case None
    with ev show ?thesis by (simp add: AnthropicAdapter_parseSSELine_def)
  next
    case (Some event)
    with ev have "catchEmpty (anthropicEvents event) = Inr events"
      by (simp add: AnthropicAdapter_parseSSELine_def)
    from catchEmpty_Inr [OF this] show ?thesis
      using anthropicEvents_length [of event events] by auto
  qed
  with ev show "\<exists>events. AnthropicAdapter_parseSSELine JSON_parse jsonLine = Inr events \<and> length events \<le> 1"
    by blast
next
  obtain events where ev: "GoogleAdapter_parseSSELine JSON_parse jsonLine = Inr events"
    unfolding GoogleAdapter_parseSSELine_def using catchEmpty_total by blast
  have bound: "length events \<le> length ps"
    if "JSON_parse jsonLine = Some v \<and> googleParts v = Inr (Some (JArr ps))"
  proof -
    from that ev have "catchEmpty (googleEvents v) = Inr events"
      by (simp add: GoogleAdapter_parseSSELine_def)
    from catchEmpty_Inr [OF this] show ?thesis
      using googleEvents_array [of v ps events] that by auto
  qed
  have none: "events = []"
    if "JSON_parse jsonLine = None \<or>
        JSON_parse jsonLine = Some v \<and> (\<forall>qs. googleParts v \<noteq> Inr (Some (JArr qs)))"
    using that
  proof
    assume "JSON_parse jsonLine = None"
    with ev show ?thesis by (simp add: GoogleAdapter_parseSSELine_def)
  next
    assume a: "JSON_parse jsonLine = Some v \<and> (\<forall>qs. googleParts v \<noteq> Inr (Some (JArr qs)))"
    then have "catchEmpty (googleEvents v) = Inr []"
      by (intro googleEvents_no_array) blast
    with a ev show ?thesis by (simp add: GoogleAdapter_parseSSELine_def)
  qed
  from ev bound none show "\<exists>events. GoogleAdapter_parseSSELine JSON_parse jsonLine = Inr events \<and>
      (JSON_parse jsonLine = Some v \<and> googleParts v = Inr (Some (JArr ps))
         \<longrightarrow> length events \<le> length ps) \<and>
      (JSON_parse jsonLine = None \<or>
       JSON_parse jsonLine = Some v \<and> (\<forall>qs. googleParts v \<noteq> Inr (Some (JArr qs)))
         \<longrightarrow> events = [])"
    by blast
next
  show \<open>GoogleAdapter_parseSSELine
     (parsesTo ''{"candidates":[{"content":{"parts":[{"text":"hm","thought":true},{"text":"4"}]}}]}''
        (JObj [(''candidates'', JArr [JObj [(''content'', JObj [(''parts'',
           JArr [JObj [(''text'', JStr ''hm''), (''thought'', JBool True)],
                 JObj [(''text'', JStr ''4'')]])])]])]))
     ''{"candidates":[{"content":{"parts":[{"text":"hm","thought":true},{"text":"4"}]}}]}''
     = Inr [StreamReasoning (JStr ''hm''), StreamChunk (JStr ''4'')]\<close>
    by (simp add: GoogleAdapter_parseSSELine_def googleEvents_def googleParts_def)
qed

theorem C7_parseSSELine_event_counts_witness:
  \<open>parsesTo ''{"candidates":[{"content":{"parts":[{"text":"a"}]}}]}''
      (JObj [(''candidates'', JArr [JObj [(''content'', JObj [(''parts'',
           JArr [JObj [(''text'', JStr ''a'')]])])]])])
      ''{"candidates":[{"content":{"parts":[{"text":"a"}]}}]}''
     = Some (JObj [(''candidates'', JArr [JObj [(''content'', JObj [(''parts'',
           JArr [JObj [(''text'', JStr ''a'')]])])]])]) \<and>
   googleParts (JObj [(''candidates'', JArr [JObj [(''content'', JObj [(''parts'',
           JArr [JObj [(''text'', JStr ''a'')]])])]])])
     = Inr (Some (JArr [JObj [(''text'', JStr ''a'')]])) \<and>
   GoogleAdapter_parseSSELine
     (parsesTo ''{"candidates":[{"content":{"parts":[{"text":"a"}]}}]}''
        (JObj [(''candidates'', JArr [JObj [(''content'', JObj [(''parts'',
           JArr [JObj [(''text'', JStr ''a'')]])])]])]))
     ''{"candidates":[{"content":{"parts":[{"text":"a"}]}}]}'' = Inr [StreamChunk (JStr ''a'')] \<and>
   length [StreamChunk (JStr ''a'')] \<le> length [JObj [(''text'', JStr ''a'')]] \<and>
   (\<lambda>s. None :: json option) ''[DONE]'' = None \<and>
   GoogleAdapter_parseSSELine (\<lambda>s. None) ''[DONE]'' = Inr [] \<and>
   AnthropicAdapter_parseSSELine (\<lambda>s. None) ''[DONE]'' = Inr []\<close>
  using C7_parseSSELine_event_counts [of
      \<open>parsesTo ''{"candidates":[{"content":{"parts":[{"text":"a"}]}}]}''
        (JObj [(''candidates'', JArr [JObj [(''content'', JObj [(''parts'',
           JArr [JObj [(''text'', JStr ''a'')]])])]])])\<close>
      \<open>''{"candidates":[{"content":{"parts":[{"text":"a"}]}}]}''\<close>
      \<open>JObj [(''candidates'', JArr [JObj [(''content'', JObj [(''parts'',
           JArr [JObj [(''text'', JStr ''a'')]])])]])]\<close>
      \<open>[JObj [(''text'', JStr ''a'')]]\<close>]
    C7_parseSSELine_event_counts [of "\<lambda>s. None" "''[DONE]''" JNull "[]"]
  by (simp add: GoogleAdapter_parseSSELine_def googleEvents_def googleParts_def
      AnthropicAdapter_parseSSELine_def)

text \<open>
  The bound of two events fails for the Google adapter: a frame with three text parts
  gives three events.
\<close>

theorem C7_three_events_counterexample:
  \<open>GoogleAdapter_parseSSELine
     (parsesTo ''{"candidates":[{"content":{"parts":[{"text":"a"},{"text":"b"},{"text":"c"}]}}]}''
        (JObj [(''candidates'', JArr [JObj [(''content'', JObj [(''parts'',
           JArr [JObj [(''text'', JStr ''a'')], JObj [(''text'', JStr ''b'')],
                 JObj [(''text'', JStr ''c'')]])])]])]))
     ''{"candidates":[{"content":{"parts":[{"text":"a"},{"text":"b"},{"text":"c"}]}}]}''
     = Inr [StreamChunk (JStr ''a''), StreamChunk (JStr ''b''), StreamChunk (JStr ''c'')]\<close>
  by (simp add: GoogleAdapter_parseSSELine_def googleEvents_def googleParts_def)

section \<open>Properties of the chat turn\<close>

lemma relay_fold:
  "foldl (onEvent cid) (ac, ar, w) events =
     (ac @ chunkText events, ar @ reasoningText events, w\<lparr>sent := sent w @ relayed cid events\<rparr>)"
proof (induction events arbitrary: ac ar w)
  case Nil
  show ?case by simp
next
  case (Cons e events)
  show ?case
    by (cases e) (simp_all add: Cons.IH send_def)
qed

lemma terminalCount_relayed: "filter isTerminal (relayed cid events) = []"
  by (induction cid events rule: relayed.induct) simp_all

lemma touchMeta_keeps:
  "sent (touchMeta env cid w) = sent w"
  "logs (touchMeta env cid w) = logs w"
  "activeControllers (touchMeta env cid w) = activeControllers w"
  "requests (touchMeta env cid w) = requests w"
  by (simp_all add: touchMeta_def updateConversationMeta_def Let_def split: option.splits sum.splits)

lemma errors_relayed: "filter isErrorEvent (relayed cid events) = []"
  by (induction cid events rule: relayed.induct) simp_all

lemma streamTurn_unfold:
  "streamTurn p env input channel apiKey w =
     (let request = streamRequestInput p input channel apiKey
                      (filterHistory (logs w (in_conversationId input))
                         (in_contextDividers input) (in_contextLength input));
          run = streamSSE env (ch_provider channel) request;
          w3 = w\<lparr>activeControllers := insert (in_conversationId input) (activeControllers w),
                 requests := requests w @ [(ch_provider channel, request)],
                 sent := sent w @ relayed (in_conversationId input) (run_events run)\<rparr>;
          (t, w4) =
            (case run_result run of
               Returned content reasoning \<Rightarrow>
                 (case saveAssistant env input content reasoning w3 of
                    Inr w' \<Rightarrow> (None, w')
                  | Inl e \<Rightarrow>
                      onCatch env input (run_aborted run) e (chunkText (run_events run))
                        (reasoningText (run_events run)) w3)
             | Threw e \<Rightarrow>
                 onCatch env input (run_aborted run) e (chunkText (run_events run))
                   (reasoningText (run_events run)) w3)
      in (t, w4\<lparr>activeControllers := activeControllers w4 - {in_conversationId input}\<rparr>))"
  by (simp add: streamTurn_def Let_def relay_fold getConversationMessages_def
      cong: StreamResult.case_cong sum.case_cong)

lemma saveAssistant_sent:
  "saveAssistant env input content reasoning w = Inr w' \<Longrightarrow>
     sent w' = sent w @ [STREAM_COMPLETE (in_conversationId input) (in_modelId input)
                           (Some (assistantMsgId env))]"
  by (auto simp: saveAssistant_def appendMessage_def send_def touchMeta_keeps split: if_splits)

lemma onCatch_sent:
  assumes "onCatch env input aborted e ac ar w = (t, w')"
  shows "(t = None \<and> (\<exists>ev. isTerminal ev \<and> sent w' = sent w @ [ev])) \<or>
         (t = Some (ErrorObject AppendFailed) \<and> sent w' = sent w)"
  using assms
  by (auto simp: onCatch_def appendMessage_def send_def touchMeta_keeps split: if_splits)

lemma streamTurn_sent:
  assumes "streamTurn p env input channel apiKey w = (t, w')"
  shows "\<exists>mid fin. sent w' = sent w @ mid @ fin \<and> filter isTerminal mid = [] \<and>
           ((t = None \<and> (\<exists>ev. fin = [ev] \<and> isTerminal ev)) \<or>
            (t = Some (ErrorObject AppendFailed) \<and> fin = []))"
proof -
  define request where "request = streamRequestInput p input channel apiKey
                      (filterHistory (logs w (in_conversationId input))
                         (in_contextDividers input) (in_contextLength input))"
  define rn where "rn = streamSSE env (ch_provider channel) request"
  define w3 where "w3 = w\<lparr>activeControllers := insert (in_conversationId input) (activeControllers w),
                 requests := requests w @ [(ch_provider channel, request)],
                 sent := sent w @ relayed (in_conversationId input) (run_events rn)\<rparr>"
  define body where "body = (case run_result rn of
               Returned content reasoning \<Rightarrow>
                 (case saveAssistant env input content reasoning w3 of
                    Inr w' \<Rightarrow> (None, w')
                  | Inl e \<Rightarrow>
                      onCatch env input (run_aborted rn) e (chunkText (run_events rn))
                        (reasoningText (run_events rn)) w3)
             | Threw e \<Rightarrow>
                 onCatch env input (run_aborted rn) e (chunkText (run_events rn))
                   (reasoningText (run_events rn)) w3)"
  have w3_sent: "sent w3 = sent w @ relayed (in_conversationId input) (run_events rn)"
    by (simp add: w3_def)
  have "streamTurn p env input channel apiKey w =
          (fst body, (snd body)\<lparr>activeControllers :=
             activeControllers (snd body) - {in_conversationId input}\<rparr>)"
    unfolding streamTurn_unfold body_def w3_def rn_def request_def
    by (simp add: Let_def case_prod_beta)
  with assms have res: "t = fst body" "sent w' = sent (snd body)"
    by auto
  have "(fst body = None \<and> (\<exists>ev. isTerminal ev \<and> sent (snd body) = sent w3 @ [ev])) \<or>
        (fst body = Some (ErrorObject AppendFailed) \<and> sent (snd body) = sent w3)"
  proof (cases "run_result rn")
    case (Threw e)
    then have "body = onCatch env input (run_aborted rn) e (chunkText (run_events rn))
                   (reasoningText (run_events rn)) w3"
      by (simp add: body_def)
    with onCatch_sent [of env input "run_aborted rn" e _ _ w3 "fst body" "snd body"]
    show ?thesis by simp
  next
    case (Returned content reasoning)
    show ?thesis
    proof (cases "saveAssistant env input content reasoning w3")
      case (Inr w4)
      with Returned have "body = (None, w4)" by (simp add: body_def)
      with saveAssistant_sent [OF Inr] show ?thesis by simp
    next
      case (Inl e)
      with Returned have "body = onCatch env input (run_aborted rn) e (chunkText (run_events rn))
                   (reasoningText (run_events rn)) w3"
        by (simp add: body_def)
      with onCatch_sent [of env input "run_aborted rn" e _ _ w3 "fst body" "snd body"]
      show ?thesis by simp
    qed
  qed
  then show ?thesis
  proof
    assume "fst body = None \<and> (\<exists>ev. isTerminal ev \<and> sent (snd body) = sent w3 @ [ev])"
    then obtain ev where "fst body = None" "isTerminal ev" "sent (snd body) = sent w3 @ [ev]"
      by blast
    with res w3_sent terminalCount_relayed [of "in_conversationId input" "run_events rn"]
    have "sent w' = sent w @ relayed (in_conversationId input) (run_events rn) @ [ev] \<and>
          filter isTerminal (relayed (in_conversationId input) (run_events rn)) = [] \<and>
          ((t = None \<and> (\<exists>ev'. [ev] = [ev'] \<and> isTerminal ev')) \<or>
           (t = Some (ErrorObject AppendFailed) \<and> [ev] = []))"
      by simp
    then show ?thesis by blast
  next
    assume "fst body = Some (ErrorObject AppendFailed) \<and> sent (snd body) = sent w3"
    with res w3_sent terminalCount_relayed [of "in_conversationId input" "run_events rn"]
    have "sent w' = sent w @ relayed (in_conversationId input) (run_events rn) @ [] \<and>
          filter isTerminal (relayed (in_conversationId input) (run_events rn)) = [] \<and>
          ((t = None \<and> (\<exists>ev'. [] = [ev'] \<and> isTerminal ev')) \<or>
           (t = Some (ErrorObject AppendFailed) \<and> ([] :: IpcEvent list) = []))"
      by simp
    then show ?thesis by blast
  qed
qed

lemma sendMessage_sent:
  assumes "sendMessage p env input w = (t, w')"
  shows "\<exists>mid fin. sent w' = sent w @ mid @ fin \<and> filter isTerminal mid = [] \<and>
           ((t = None \<and> (\<exists>ev. fin = [ev] \<and> isTerminal ev)) \<or>
            (t = Some (ErrorObject AppendFailed) \<and> fin = []))"
proof (cases "find (\<lambda>c. ch_id c = in_channelId input) (listChannels p)")
  case None
  with assms have "t = None" "sent w' = sent w @ [] @ [STREAM_ERROR (in_conversationId input) ChannelNotFound]"
    by (auto simp: sendMessage_def send_def)
  then show ?thesis
    by (intro exI [of _ "[]"] exI [of _ "[STREAM_ERROR (in_conversationId input) ChannelNotFound]"])
       simp
next
  case (Some channel)
  show ?thesis
  proof (cases "decryptApiKey p (in_channelId input)")
    case None
    with Some assms have "t = None"
      "sent w' = sent w @ [] @ [STREAM_ERROR (in_conversationId input) DecryptFailed]"
      by (auto simp: sendMessage_def send_def)
    then show ?thesis
      by (intro exI [of _ "[]"] exI [of _ "[STREAM_ERROR (in_conversationId input) DecryptFailed]"])
         simp
  next
    case key: (Some apiKey)
    show ?thesis
    proof (cases "userAppendOk env")
      case False
      with Some key assms have "t = Some (ErrorObject AppendFailed)" "sent w' = sent w @ [] @ []"
        by (auto simp: sendMessage_def appendMessage_def)
      then show ?thesis by (intro exI [of _ "[]"]) simp
    next
      case True
      define w1 where "w1 = w\<lparr>logs := (logs w)(in_conversationId input :=
                  logs w (in_conversationId input) @ [userMsg env input])\<rparr>"
      from True Some key assms have "streamTurn p env input channel apiKey w1 = (t, w')"
        by (simp add: sendMessage_def appendMessage_def w1_def)
      from streamTurn_sent [OF this] show ?thesis by (simp add: w1_def)
    qed
  qed
qed

text \<open>
  Claim C5. If the channel referenced by the input does not exist, or the API key cannot be
  decrypted, \<open>sendMessage\<close> returns normally, the only effect being one error event sent
  to the renderer: the message logs and the index of the store are unchanged, so neither
  a user message nor an assistant message is written.
\<close>

theorem C5_configuration_error:
  "find (\<lambda>c. ch_id c = in_channelId input) (listChannels p) = None \<or>
   decryptApiKey p (in_channelId input) = None \<Longrightarrow>
     \<exists>err. sendMessage p env input w =
              (None, w\<lparr>sent := sent w @ [STREAM_ERROR (in_conversationId input) err]\<rparr>) \<and>
           logs (snd (sendMessage p env input w)) = logs w \<and>
           index (snd (sendMessage p env input w)) = index w"
  by (cases "find (\<lambda>c. ch_id c = in_channelId input) (listChannels p)")
     (auto simp: sendMessage_def send_def)

theorem C5_configuration_error_witness:
  "find (\<lambda>c. ch_id c = in_channelId (exampleInput\<lparr>in_channelId := ''gone''\<rparr>))
      (listChannels examplePlatform) = None \<and>
   sendMessage examplePlatform exampleTurn (exampleInput\<lparr>in_channelId := ''gone''\<rparr>) exampleWorld
     = (None, exampleWorld\<lparr>sent := [STREAM_ERROR ''c1'' ChannelNotFound]\<rparr>) \<and>
   decryptApiKey (examplePlatform\<lparr>decryptApiKey := (\<lambda>i. None)\<rparr>) (in_channelId exampleInput) = None \<and>
   sendMessage (examplePlatform\<lparr>decryptApiKey := (\<lambda>i. None)\<rparr>) exampleTurn exampleInput exampleWorld
     = (None, exampleWorld\<lparr>sent := [STREAM_ERROR ''c1'' DecryptFailed]\<rparr>)"
  using C5_configuration_error [of "exampleInput\<lparr>in_channelId := ''gone''\<rparr>" examplePlatform
      exampleTurn exampleWorld]
    C5_configuration_error [of exampleInput "examplePlatform\<lparr>decryptApiKey := (\<lambda>i. None)\<rparr>"
      exampleTurn exampleWorld]
  by (simp add: sendMessage_def send_def examplePlatform_def exampleInput_def exampleWorld_def)

lemma onCatch_raises:
  "onCatch env input aborted e ac ar w = (Some x, w') \<Longrightarrow> \<not> partialAppendOk env"
  by (auto simp: onCatch_def appendMessage_def split: if_splits)

lemma streamTurn_raises:
  assumes "streamTurn p env input channel apiKey w = (Some x, w')"
  shows "\<not> partialAppendOk env"
proof -
  define request where "request = streamRequestInput p input channel apiKey
                      (filterHistory (logs w (in_conversationId input))
                         (in_contextDividers input) (in_contextLength input))"
  define rn where "rn = streamSSE env (ch_provider channel) request"
  define w3 where "w3 = w\<lparr>activeControllers := insert (in_conversationId input) (activeControllers w),
                 requests := requests w @ [(ch_provider channel, request)],
                 sent := sent w @ relayed (in_conversationId input) (run_events rn)\<rparr>"
  define body where "body = (case run_result rn of
               Returned content reasoning \<Rightarrow>
                 (case saveAssistant env input content reasoning w3 of
                    Inr w' \<Rightarrow> (None, w')
                  | Inl e \<Rightarrow>
                      onCatch env input (run_aborted rn) e (chunkText (run_events rn))
                        (reasoningText (run_events rn)) w3)
             | Threw e \<Rightarrow>
                 onCatch env input (run_aborted rn) e (chunkText (run_events rn))
                   (reasoningText (run_events rn)) w3)"
  have "streamTurn p env input channel apiKey w =
          (fst body, (snd body)\<lparr>activeControllers :=
             activeControllers (snd body) - {in_conversationId input}\<rparr>)"
    unfolding streamTurn_unfold body_def w3_def rn_def request_def
    by (simp add: Let_def case_prod_beta)
  with assms have raised: "fst body = Some x" by simp
  show ?thesis
  proof (cases "run_result rn")
    case (Threw e)
    then have "body = onCatch env input (run_aborted rn) e (chunkText (run_events rn))
                   (reasoningText (run_events rn)) w3"
      by (simp add: body_def)
    with raised have "onCatch env input (run_aborted rn) e (chunkText (run_events rn))
                   (reasoningText (run_events rn)) w3 = (Some x, snd body)"
      by (simp add: prod_eq_iff)
    then show ?thesis by (rule onCatch_raises)
  next
    case (Returned content reasoning)
    show ?thesis
    proof (cases "saveAssistant env input content reasoning w3")
      case (Inr w4)
      with Returned have "body = (None, w4)" by (simp add: body_def)
      with raised show ?thesis by simp
    next
      case (Inl e)
      with Returned have "body = onCatch env input (run_aborted rn) e (chunkText (run_events rn))
                   (reasoningText (run_events rn)) w3"
        by (simp add: body_def)
      with raised have "onCatch env input (run_aborted rn) e (chunkText (run_events rn))
                   (reasoningText (run_events rn)) w3 = (Some x, snd body)"
        by (simp add: prod_eq_iff)
      then show ?thesis by (rule onCatch_raises)
    qed
  qed
qed

lemma sendMessage_raises:
  assumes "sendMessage p env input w = (Some x, w')"
  shows "\<not> userAppendOk env \<or> \<not> partialAppendOk env"
proof (cases "userAppendOk env")
  case False
  then show ?thesis by simp
next
  case True
  from assms obtain channel where
    ch: "find (\<lambda>c. ch_id c = in_channelId input) (listChannels p) = Some channel"
    by (cases "find (\<lambda>c. ch_id c = in_channelId input) (listChannels p)")
       (simp_all add: sendMessage_def)
  from assms ch obtain apiKey where key: "decryptApiKey p (in_channelId input) = Some apiKey"
    by (cases "decryptApiKey p (in_channelId input)") (simp_all add: sendMessage_def)
  from assms ch key True have "streamTurn p env input channel apiKey
      (w\<lparr>logs := (logs w)(in_conversationId input :=
                  logs w (in_conversationId input) @ [userMsg env input])\<rparr>) = (Some x, w')"
    by (simp add: sendMessage_def appendMessage_def)
  from streamTurn_raises [OF this] show ?thesis by simp
qed

lemma sendMessage_user_append_fails:
  assumes "find (\<lambda>c. ch_id c = in_channelId input) (listChannels p) = Some channel"
    and "decryptApiKey p (in_channelId input) = Some apiKey"
    and "\<not> userAppendOk env"
  shows "sendMessage p env input w = (Some (ErrorObject AppendFailed), w)"
  using assms by (simp add: sendMessage_def appendMessage_def)

lemma sendMessage_partial_append_fails:
  assumes "find (\<lambda>c. ch_id c = in_channelId input) (listChannels p) = Some channel"
    and "decryptApiKey p (in_channelId input) = Some apiKey"
    and "userAppendOk env"
    and "streamSSE env (ch_provider channel)
           (streamRequestInput p input channel apiKey
              (filterHistory (logs w (in_conversationId input) @ [userMsg env input])
                 (in_contextDividers input) (in_contextLength input))) = run"
    and "run_aborted run"
    and "run_result run = Threw e \<or>
         run_result run = Returned content reasoning \<and> \<not> assistantAppendOk env"
    and "chunkText (run_events run) \<noteq> []"
    and "\<not> partialAppendOk env"
  shows "fst (sendMessage p env input w) = Some (ErrorObject AppendFailed) \<and>
         sent (snd (sendMessage p env input w))
           = sent w @ relayed (in_conversationId input) (run_events run)"
proof -
  define w1 where "w1 = w\<lparr>logs := (logs w)(in_conversationId input :=
                  logs w (in_conversationId input) @ [userMsg env input])\<rparr>"
  have run1: "streamSSE env (ch_provider channel)
           (streamRequestInput p input channel apiKey
              (filterHistory (logs w1 (in_conversationId input))
                 (in_contextDividers input) (in_contextLength input))) = run"
    using assms(4) by (simp add: w1_def)
  have send: "sendMessage p env input w = streamTurn p env input channel apiKey w1"
    using assms(1,2,3) by (simp add: sendMessage_def appendMessage_def w1_def)
  from assms(6) show ?thesis
  proof
    assume "run_result run = Threw e"
    with run1 assms(5,7,8) show ?thesis
      unfolding send streamTurn_unfold
      by (simp add: Let_def onCatch_def appendMessage_def w1_def)
  next
    assume "run_result run = Returned content reasoning \<and> \<not> assistantAppendOk env"
    with run1 assms(5,7,8) show ?thesis
      unfolding send streamTurn_unfold
      by (simp add: Let_def onCatch_def saveAssistant_def appendMessage_def w1_def)
  qed
qed

text \<open>
  Claim C4, as the code has it. Every execution of \<open>sendMessage\<close> delivers at most one
  terminal event (a completion or an error event), after the events it had sent before.
  It delivers exactly one when it returns normally. When it raises instead, it raises
  the store's append error, one of the two unguarded appends has failed, and it has
  delivered no terminal event: the caller learns of the failure from the rejected
  promise. It does raise whenever the append of the user message fails (line 149, before
  the \<^verbatim>\<open>try\<close> block), leaving the world as it was, and whenever the \<^verbatim>\<open>catch\<close> block is
  entered with the abort signal set and a non-empty accumulated text and the append of
  the partial message fails (lines 233-244), after the relayed events only.
\<close>

theorem C4_sendMessage_terminal_events:
  "sendMessage p env input w = (thrown, w') \<Longrightarrow>
     (\<exists>new. sent w' = sent w @ new \<and> terminalCount new \<le> 1 \<and>
        (thrown = None \<longrightarrow> terminalCount new = 1) \<and>
        (thrown \<noteq> None \<longrightarrow> terminalCount new = 0 \<and> thrown = Some (ErrorObject AppendFailed) \<and>
                           (\<not> userAppendOk env \<or> \<not> partialAppendOk env))) \<and>
     (find (\<lambda>c. ch_id c = in_channelId input) (listChannels p) = Some channel \<and>
      decryptApiKey p (in_channelId input) = Some apiKey \<and> \<not> userAppendOk env
        \<longrightarrow> thrown = Some (ErrorObject AppendFailed) \<and> w' = w) \<and>
     (find (\<lambda>c. ch_id c = in_channelId input) (listChannels p) = Some channel \<and>
      decryptApiKey p (in_channelId input) = Some apiKey \<and> userAppendOk env \<and>
      streamSSE env (ch_provider channel)
        (streamRequestInput p input channel apiKey
           (filterHistory (logs w (in_conversationId input) @ [userMsg env input])
              (in_contextDividers input) (in_contextLength input))) = run \<and>
      run_aborted run \<and>
      (run_result run = Threw e \<or>
       run_result run = Returned content reasoning \<and> \<not> assistantAppendOk env) \<and>
      chunkText (run_events run) \<noteq> [] \<and> \<not> partialAppendOk env
        \<longrightarrow> thrown = Some (ErrorObject AppendFailed) \<and>
            sent w' = sent w @ relayed (in_conversationId input) (run_events run))"
proof (intro conjI impI)
  assume run: "sendMessage p env input w = (thrown, w')"
  from sendMessage_sent [OF run] obtain mid fin where
    s: "sent w' = sent w @ mid @ fin" and m: "filter isTerminal mid = []" and
    f: "(thrown = None \<and> (\<exists>ev. fin = [ev] \<and> isTerminal ev)) \<or>
        (thrown = Some (ErrorObject AppendFailed) \<and> fin = [])"
    by blast
  have r: "\<not> userAppendOk env \<or> \<not> partialAppendOk env" if "thrown \<noteq> None"
  proof -
    from that obtain x where "thrown = Some x" by (cases thrown) simp_all
    with run sendMessage_raises [of p env input w x w'] show ?thesis by simp
  qed
  from m f r have "terminalCount (mid @ fin) \<le> 1 \<and>
       (thrown = None \<longrightarrow> terminalCount (mid @ fin) = 1) \<and>
       (thrown \<noteq> None \<longrightarrow> terminalCount (mid @ fin) = 0 \<and> thrown = Some (ErrorObject AppendFailed) \<and>
                           (\<not> userAppendOk env \<or> \<not> partialAppendOk env))"
    by (auto simp: terminalCount_def)
  with s show "\<exists>new. sent w' = sent w @ new \<and> terminalCount new \<le> 1 \<and>
        (thrown = None \<longrightarrow> terminalCount new = 1) \<and>
        (thrown \<noteq> None \<longrightarrow> terminalCount new = 0 \<and> thrown = Some (ErrorObject AppendFailed) \<and>
                           (\<not> userAppendOk env \<or> \<not> partialAppendOk env))"
    by blast
next
  assume run: "sendMessage p env input w = (thrown, w')"
    and "find (\<lambda>c. ch_id c = in_channelId input) (listChannels p) = Some channel \<and>
      decryptApiKey p (in_channelId input) = Some apiKey \<and> \<not> userAppendOk env"
  with sendMessage_user_append_fails [of input p channel apiKey env w]
  show "thrown = Some (ErrorObject AppendFailed)" "w' = w" by simp_all
next
  assume run: "sendMessage p env input w = (thrown, w')"
    and h: "find (\<lambda>c. ch_id c = in_channelId input) (listChannels p) = Some channel \<and>
      decryptApiKey p (in_channelId input) = Some apiKey \<and> userAppendOk env \<and>
      streamSSE env (ch_provider channel)
        (streamRequestInput p input channel apiKey
           (filterHistory (logs w (in_conversationId input) @ [userMsg env input])
              (in_contextDividers input) (in_contextLength input))) = run \<and>
      run_aborted run \<and>
      (run_result run = Threw e \<or>
       run_result run = Returned content reasoning \<and> \<not> assistantAppendOk env) \<and>
      chunkText (run_events run) \<noteq> [] \<and> \<not> partialAppendOk env"
  from h have "fst (sendMessage p env input w) = Some (ErrorObject AppendFailed) \<and>
         sent (snd (sendMessage p env input w))
           = sent w @ relayed (in_conversationId input) (run_events run)"
    by (intro sendMessage_partial_append_fails [of input p channel apiKey env w run e content reasoning])
       simp_all
  with run show "thrown = Some (ErrorObject AppendFailed)"
    "sent w' = sent w @ relayed (in_conversationId input) (run_events run)"
    by simp_all
qed

theorem C4_sendMessage_terminal_events_witness:
  "sendMessage examplePlatform exampleTurn exampleInput exampleWorld
     = (None, snd (sendMessage examplePlatform exampleTurn exampleInput exampleWorld)) \<and>
   sent (snd (sendMessage examplePlatform exampleTurn exampleInput exampleWorld))
     = sent exampleWorld @ [STREAM_CHUNK ''c1'' ''4'', STREAM_COMPLETE ''c1'' ''model'' (Some ''a2'')] \<and>
   terminalCount [STREAM_CHUNK ''c1'' ''4'', STREAM_COMPLETE ''c1'' ''model'' (Some ''a2'')] = 1 \<and>
   find (\<lambda>c. ch_id c = in_channelId exampleInput) (listChannels examplePlatform)
     = Some \<lparr>ch_id = ''ch1'', ch_provider = ''anthropic'', ch_baseUrl = ''https://api''\<rparr> \<and>
   decryptApiKey examplePlatform (in_channelId exampleInput) = Some ''key'' \<and>
   \<not> userAppendOk (exampleTurn\<lparr>userAppendOk := False\<rparr>) \<and>
   sendMessage examplePlatform (exampleTurn\<lparr>userAppendOk := False\<rparr>) exampleInput exampleWorld
     = (Some (ErrorObject AppendFailed), exampleWorld) \<and>
   Some (ErrorObject AppendFailed) \<noteq> None \<and>
   sent exampleWorld = sent exampleWorld @ [] \<and> terminalCount [] = 0 \<and>
   userAppendOk ((cancelledTurn [StreamChunk ''2+''])\<lparr>partialAppendOk := False\<rparr>) \<and>
   \<not> partialAppendOk ((cancelledTurn [StreamChunk ''2+''])\<lparr>partialAppendOk := False\<rparr>) \<and>
   chunkText [StreamChunk ''2+''] \<noteq> [] \<and>
   fst (sendMessage examplePlatform ((cancelledTurn [StreamChunk ''2+''])\<lparr>partialAppendOk := False\<rparr>)
          exampleInput exampleWorld) = Some (ErrorObject AppendFailed) \<and>
   sent (snd (sendMessage examplePlatform
                ((cancelledTurn [StreamChunk ''2+''])\<lparr>partialAppendOk := False\<rparr>)
                exampleInput exampleWorld))
     = sent exampleWorld @ [STREAM_CHUNK ''c1'' ''2+''] \<and>
   terminalCount [STREAM_CHUNK ''c1'' ''2+''] = 0"
proof -
  let ?ch = "\<lparr>ch_id = ''ch1'', ch_provider = ''anthropic'', ch_baseUrl = ''https://api''\<rparr>"
  let ?envC = "(cancelledTurn [StreamChunk ''2+''])\<lparr>partialAppendOk := False\<rparr>"
  let ?runC = "\<lparr>run_events = [StreamChunk ''2+''],
                run_result = Threw (ErrorObject (OtherMessage ''aborted'')), run_aborted = True\<rparr>"
  have found: "find (\<lambda>c. ch_id c = in_channelId exampleInput) (listChannels examplePlatform) = Some ?ch"
    and key: "decryptApiKey examplePlatform (in_channelId exampleInput) = Some ''key''"
    by (simp_all add: examplePlatform_def exampleInput_def)
  have flags: "userAppendOk ?envC" "\<not> partialAppendOk ?envC"
    "\<not> userAppendOk (exampleTurn\<lparr>userAppendOk := False\<rparr>)"
    by (simp_all add: cancelledTurn_def exampleTurn_def)
  have runC: "streamSSE ?envC (ch_provider ?ch)
        (streamRequestInput examplePlatform exampleInput ?ch ''key''
           (filterHistory (logs exampleWorld (in_conversationId exampleInput) @ [userMsg ?envC exampleInput])
              (in_contextDividers exampleInput) (in_contextLength exampleInput))) = ?runC"
    by (simp add: cancelledTurn_def)
  note C = C4_sendMessage_terminal_events [where p = examplePlatform and env = ?envC
      and input = exampleInput and w = exampleWorld and channel = ?ch and apiKey = "''key''"
      and run = ?runC and e = "ErrorObject (OtherMessage ''aborted'')"
      and content = "[]" and reasoning = "[]"
      and thrown = "fst (sendMessage examplePlatform ?envC exampleInput exampleWorld)"
      and w' = "snd (sendMessage examplePlatform ?envC exampleInput exampleWorld)"]
  have C': "fst (sendMessage examplePlatform ?envC exampleInput exampleWorld)
              = Some (ErrorObject AppendFailed) \<and>
            sent (snd (sendMessage examplePlatform ?envC exampleInput exampleWorld))
              = sent exampleWorld @ [STREAM_CHUNK ''c1'' ''2+'']"
    using C found key flags(1,2) runC by (simp add: exampleInput_def)
  note U = C4_sendMessage_terminal_events [where p = examplePlatform
      and env = "exampleTurn\<lparr>userAppendOk := False\<rparr>"
      and input = exampleInput and w = exampleWorld and channel = ?ch and apiKey = "''key''"
      and thrown = "fst (sendMessage examplePlatform (exampleTurn\<lparr>userAppendOk := False\<rparr>)
                           exampleInput exampleWorld)"
      and w' = "snd (sendMessage examplePlatform (exampleTurn\<lparr>userAppendOk := False\<rparr>)
                           exampleInput exampleWorld)"]
  have U': "sendMessage examplePlatform (exampleTurn\<lparr>userAppendOk := False\<rparr>) exampleInput exampleWorld
              = (Some (ErrorObject AppendFailed), exampleWorld)"
    using U found key flags(3) by (simp add: prod_eq_iff)
  have N: "sendMessage examplePlatform exampleTurn exampleInput exampleWorld
     = (None, snd (sendMessage examplePlatform exampleTurn exampleInput exampleWorld)) \<and>
   sent (snd (sendMessage examplePlatform exampleTurn exampleInput exampleWorld))
     = sent exampleWorld @ [STREAM_CHUNK ''c1'' ''4'', STREAM_COMPLETE ''c1'' ''model'' (Some ''a2'')]"
    using C4_sendMessage_terminal_events [of examplePlatform exampleTurn exampleInput exampleWorld
      None "snd (sendMessage examplePlatform exampleTurn exampleInput exampleWorld)"]
    by (simp add: sendMessage_def streamTurn_unfold appendMessage_def Let_def saveAssistant_def
      send_def touchMeta_keeps
      examplePlatform_def exampleTurn_def exampleInput_def exampleWorld_def)
  from N U' C' found key flags show ?thesis
    by (simp add: terminalCount_def)
qed

text \<open>
  When the append of the user message fails (line 149 is outside the \<^verbatim>\<open>try\<close> block),
  \<open>sendMessage\<close> raises and no terminal event reaches the renderer.
\<close>

theorem C4_no_terminal_event_counterexample:
  "sendMessage examplePlatform (exampleTurn\<lparr>userAppendOk := False\<rparr>) exampleInput exampleWorld
     = (Some (ErrorObject AppendFailed), exampleWorld) \<and>
   sent exampleWorld = [] \<and>
   terminalCount (sent (snd (sendMessage examplePlatform (exampleTurn\<lparr>userAppendOk := False\<rparr>)
                               exampleInput exampleWorld))) = 0"
  by (simp add: sendMessage_def appendMessage_def terminalCount_def
      examplePlatform_def exampleTurn_def exampleInput_def exampleWorld_def)

text \<open>
  Claim C3, as the code has it. Take a turn that reaches the stream (the channel exists,
  the key decrypts, the user message is appended) and is cancelled: the stream throws
  with the abort signal set. If the accumulated chunk text is not empty and the store
  accepts the append of the partial message, \<open>sendMessage\<close> appends after the user message
  exactly one message, an assistant message with \<open>stopped = true\<close> whose content is the
  accumulated text, and its last event is a completion event with that message's id. If
  the accumulated text is not empty and the store refuses that append, \<open>sendMessage\<close>
  raises the store's append error: nothing is appended after the user message and no
  completion event is sent. If the accumulated text is empty, it appends nothing after
  the user message and its last event is a completion event without a message id. In
  every cancelled turn no error event is sent.
\<close>

theorem C3_cancelled_turn:
  assumes "find (\<lambda>c. ch_id c = in_channelId input) (listChannels p) = Some channel"
    and "decryptApiKey p (in_channelId input) = Some apiKey"
    and "userAppendOk env"
    and "streamSSE env (ch_provider channel)
           (streamRequestInput p input channel apiKey
              (filterHistory (logs w (in_conversationId input) @ [userMsg env input])
                 (in_contextDividers input) (in_contextLength input))) = run"
    and "run_result run = Threw e" and "run_aborted run"
    and "sendMessage p env input w = (thrown, w')"
  shows "(chunkText (run_events run) \<noteq> [] \<and> partialAppendOk env \<longrightarrow>
            thrown = None \<and>
            logs w' = (logs w)(in_conversationId input :=
               logs w (in_conversationId input) @
                 [userMsg env input,
                  partialMsg env input (chunkText (run_events run)) (reasoningText (run_events run))]) \<and>
            msg_role (partialMsg env input (chunkText (run_events run))
                        (reasoningText (run_events run))) = Assistant \<and>
            msg_stopped (partialMsg env input (chunkText (run_events run))
                        (reasoningText (run_events run))) = Some True \<and>
            msg_content (partialMsg env input (chunkText (run_events run))
                        (reasoningText (run_events run))) = chunkText (run_events run) \<and>
            sent w' = sent w @ relayed (in_conversationId input) (run_events run) @
               [STREAM_COMPLETE (in_conversationId input) (in_modelId input)
                  (Some (msg_id (partialMsg env input (chunkText (run_events run))
                        (reasoningText (run_events run)))))]) \<and>
         (chunkText (run_events run) \<noteq> [] \<and> \<not> partialAppendOk env \<longrightarrow>
            thrown = Some (ErrorObject AppendFailed) \<and>
            logs w' = (logs w)(in_conversationId input :=
               logs w (in_conversationId input) @ [userMsg env input]) \<and>
            sent w' = sent w @ relayed (in_conversationId input) (run_events run)) \<and>
         (chunkText (run_events run) = [] \<longrightarrow>
            thrown = None \<and>
            logs w' = (logs w)(in_conversationId input :=
               logs w (in_conversationId input) @ [userMsg env input]) \<and>
            sent w' = sent w @ relayed (in_conversationId input) (run_events run) @
               [STREAM_COMPLETE (in_conversationId input) (in_modelId input) None]) \<and>
         (\<exists>new. sent w' = sent w @ new \<and> filter isErrorEvent new = [])"
proof -
  define cid where "cid = in_conversationId input"
  define w1 where "w1 = w\<lparr>logs := (logs w)(cid := logs w cid @ [userMsg env input])\<rparr>"
  define w3 where "w3 = w1\<lparr>activeControllers := insert cid (activeControllers w1),
                 requests := requests w1 @ [(ch_provider channel,
                    streamRequestInput p input channel apiKey
                      (filterHistory (logs w1 cid) (in_contextDividers input) (in_contextLength input)))],
                 sent := sent w1 @ relayed cid (run_events run)\<rparr>"
  define ac where "ac = chunkText (run_events run)"
  define ar where "ar = reasoningText (run_events run)"
  have run1: "streamSSE env (ch_provider channel)
           (streamRequestInput p input channel apiKey
              (filterHistory (logs w1 cid) (in_contextDividers input) (in_contextLength input))) = run"
    using assms(4) by (simp add: w1_def cid_def)
  from assms(1,2,3,7) have "streamTurn p env input channel apiKey w1 = (thrown, w')"
    by (simp add: sendMessage_def appendMessage_def w1_def cid_def)
  then have turn: "(thrown, w') =
      (fst (onCatch env input True e ac ar w3),
       (snd (onCatch env input True e ac ar w3))\<lparr>activeControllers :=
           activeControllers (snd (onCatch env input True e ac ar w3)) - {cid}\<rparr>)"
    unfolding streamTurn_unfold
    using run1 assms(5,6)
    by (simp add: Let_def case_prod_beta w3_def ac_def ar_def cid_def)
  have w3s: "sent w3 = sent w @ relayed cid (run_events run)" and w3l: "logs w3 = logs w1"
    by (simp_all add: w3_def w1_def)
  have nonempty: "thrown = None \<and> logs w' = (logs w)(cid := logs w cid @ [userMsg env input, partialMsg env input ac ar]) \<and>
          sent w' = sent w @ relayed cid (run_events run) @
             [STREAM_COMPLETE cid (in_modelId input) (Some (partialMsgId env))]"
    if "ac \<noteq> []" "partialAppendOk env"
    using that turn w3s w3l
    by (simp add: onCatch_def appendMessage_def send_def touchMeta_keeps w1_def cid_def)
  have failing: "thrown = Some (ErrorObject AppendFailed) \<and>
          logs w' = (logs w)(cid := logs w cid @ [userMsg env input]) \<and>
          sent w' = sent w @ relayed cid (run_events run)"
    if "ac \<noteq> []" "\<not> partialAppendOk env"
    using that turn w3s w3l
    by (simp add: onCatch_def appendMessage_def w1_def cid_def)
  have empty: "thrown = None \<and> logs w' = (logs w)(cid := logs w cid @ [userMsg env input]) \<and>
          sent w' = sent w @ relayed cid (run_events run) @ [STREAM_COMPLETE cid (in_modelId input) None]"
    if "ac = []"
    using that turn w3s w3l
    by (simp add: onCatch_def send_def w1_def cid_def)
  have "sent w' = sent w3 \<or> (\<exists>i. sent w' = sent w3 @ [STREAM_COMPLETE cid (in_modelId input) i])"
    using turn
    by (auto simp: onCatch_def appendMessage_def send_def touchMeta_keeps cid_def split: if_splits)
  then have noerr: "\<exists>new. sent w' = sent w @ new \<and> filter isErrorEvent new = []"
  proof
    assume "sent w' = sent w3"
    with w3s errors_relayed [of cid "run_events run"] show ?thesis by simp
  next
    assume "\<exists>i. sent w' = sent w3 @ [STREAM_COMPLETE cid (in_modelId input) i]"
    then obtain i where "sent w' = sent w @ (relayed cid (run_events run) @ [STREAM_COMPLETE cid (in_modelId input) i])"
      using w3s by auto
    moreover have "filter isErrorEvent (relayed cid (run_events run) @ [STREAM_COMPLETE cid (in_modelId input) i]) = []"
      by (simp add: errors_relayed)
    ultimately show ?thesis by blast
  qed
  have fields: "msg_role (partialMsg env input ac ar) = Assistant"
    "msg_stopped (partialMsg env input ac ar) = Some True"
    "msg_content (partialMsg env input ac ar) = ac"
    "msg_id (partialMsg env input ac ar) = partialMsgId env"
    by (simp_all add: partialMsg_def)
  from nonempty failing empty noerr fields show ?thesis
    unfolding ac_def ar_def cid_def by simp
qed

lemma example_channel:
  "find (\<lambda>c. ch_id c = in_channelId exampleInput) (listChannels examplePlatform)
     = Some \<lparr>ch_id = ''ch1'', ch_provider = ''anthropic'', ch_baseUrl = ''https://api''\<rparr>"
  by (simp add: examplePlatform_def exampleInput_def)

theorem C3_cancelled_turn_witness:
  "find (\<lambda>c. ch_id c = in_channelId exampleInput) (listChannels examplePlatform)
     = Some \<lparr>ch_id = ''ch1'', ch_provider = ''anthropic'', ch_baseUrl = ''https://api''\<rparr> \<and>
   decryptApiKey examplePlatform (in_channelId exampleInput) = Some ''key'' \<and>
   userAppendOk (cancelledTurn [StreamChunk ''2+'', StreamReasoning ''hm'', StreamChunk ''2'']) \<and>
   partialAppendOk (cancelledTurn [StreamChunk ''2+'', StreamReasoning ''hm'', StreamChunk ''2'']) \<and>
   chunkText [StreamChunk ''2+'', StreamReasoning ''hm'', StreamChunk ''2''] = ''2+2'' \<and>
   fst (sendMessage examplePlatform
          (cancelledTurn [StreamChunk ''2+'', StreamReasoning ''hm'', StreamChunk ''2''])
          exampleInput exampleWorld) = None \<and>
   logs (snd (sendMessage examplePlatform
          (cancelledTurn [StreamChunk ''2+'', StreamReasoning ''hm'', StreamChunk ''2''])
          exampleInput exampleWorld)) ''c1''
     = [plainMessage ''u1'' User ''hi'', plainMessage ''a1'' Assistant ''hello'',
        \<lparr>msg_id = ''u2'', msg_role = User, msg_content = ''what's 2+2?'', msg_createdAt = 3,
         msg_attachments = None, msg_model = None, msg_reasoning = None, msg_stopped = None\<rparr>,
        \<lparr>msg_id = ''a2'', msg_role = Assistant, msg_content = ''2+2'', msg_createdAt = 4,
         msg_attachments = None, msg_model = Some ''model'', msg_reasoning = Some ''hm'',
         msg_stopped = Some True\<rparr>] \<and>
   sent (snd (sendMessage examplePlatform
          (cancelledTurn [StreamChunk ''2+'', StreamReasoning ''hm'', StreamChunk ''2''])
          exampleInput exampleWorld))
     = [STREAM_CHUNK ''c1'' ''2+'', STREAM_REASONING ''c1'' ''hm'', STREAM_CHUNK ''c1'' ''2'',
        STREAM_COMPLETE ''c1'' ''model'' (Some ''a2'')] \<and>
   userAppendOk (cancelledTurn [StreamReasoning ''hm'']) \<and>
   chunkText [StreamReasoning ''hm''] = [] \<and>
   fst (sendMessage examplePlatform (cancelledTurn [StreamReasoning ''hm'']) exampleInput exampleWorld)
     = None \<and>
   logs (snd (sendMessage examplePlatform (cancelledTurn [StreamReasoning ''hm''])
          exampleInput exampleWorld)) ''c1''
     = [plainMessage ''u1'' User ''hi'', plainMessage ''a1'' Assistant ''hello'',
        \<lparr>msg_id = ''u2'', msg_role = User, msg_content = ''what's 2+2?'', msg_createdAt = 3,
         msg_attachments = None, msg_model = None, msg_reasoning = None, msg_stopped = None\<rparr>] \<and>
   sent (snd (sendMessage examplePlatform (cancelledTurn [StreamReasoning ''hm''])
          exampleInput exampleWorld))
     = [STREAM_REASONING ''c1'' ''hm'', STREAM_COMPLETE ''c1'' ''model'' None] \<and>
   userAppendOk ((cancelledTurn [StreamChunk ''2+'', StreamReasoning ''hm'', StreamChunk ''2''])
                   \<lparr>partialAppendOk := False\<rparr>) \<and>
   \<not> partialAppendOk ((cancelledTurn [StreamChunk ''2+'', StreamReasoning ''hm'', StreamChunk ''2''])
                   \<lparr>partialAppendOk := False\<rparr>) \<and>
   fst (sendMessage examplePlatform
          ((cancelledTurn [StreamChunk ''2+'', StreamReasoning ''hm'', StreamChunk ''2''])
             \<lparr>partialAppendOk := False\<rparr>)
          exampleInput exampleWorld) = Some (ErrorObject AppendFailed) \<and>
   logs (snd (sendMessage examplePlatform
          ((cancelledTurn [StreamChunk ''2+'', StreamReasoning ''hm'', StreamChunk ''2''])
             \<lparr>partialAppendOk := False\<rparr>)
          exampleInput exampleWorld)) ''c1''
     = [plainMessage ''u1'' User ''hi'', plainMessage ''a1'' Assistant ''hello'',
        \<lparr>msg_id = ''u2'', msg_role = User, msg_content = ''what's 2+2?'', msg_createdAt = 3,
         msg_attachments = None, msg_model = None, msg_reasoning = None, msg_stopped = None\<rparr>] \<and>
   sent (snd (sendMessage examplePlatform
          ((cancelledTurn [StreamChunk ''2+'', StreamReasoning ''hm'', StreamChunk ''2''])
             \<lparr>partialAppendOk := False\<rparr>)
          exampleInput exampleWorld))
     = [STREAM_CHUNK ''c1'' ''2+'', STREAM_REASONING ''c1'' ''hm'', STREAM_CHUNK ''c1'' ''2'']"
proof -
  let ?ch = "\<lparr>ch_id = ''ch1'', ch_provider = ''anthropic'', ch_baseUrl = ''https://api''\<rparr>"
  let ?runA = "\<lparr>run_events = [StreamChunk ''2+'', StreamReasoning ''hm'', StreamChunk ''2''],
                run_result = Threw (ErrorObject (OtherMessage ''aborted'')), run_aborted = True\<rparr>"
  let ?runB = "\<lparr>run_events = [StreamReasoning ''hm''],
                run_result = Threw (ErrorObject (OtherMessage ''aborted'')), run_aborted = True\<rparr>"
  let ?envA = "cancelledTurn [StreamChunk ''2+'', StreamReasoning ''hm'', StreamChunk ''2'']"
  let ?envB = "cancelledTurn [StreamReasoning ''hm'']"
  let ?envC = "(cancelledTurn [StreamChunk ''2+'', StreamReasoning ''hm'', StreamChunk ''2''])
                 \<lparr>partialAppendOk := False\<rparr>"
  have key: "decryptApiKey examplePlatform (in_channelId exampleInput) = Some ''key''"
    by (simp add: examplePlatform_def exampleInput_def)
  have okA: "userAppendOk ?envA" "partialAppendOk ?envA" and okB: "userAppendOk ?envB"
    by (simp_all add: cancelledTurn_def exampleTurn_def)
  have okC: "userAppendOk ?envC" and notC: "\<not> partialAppendOk ?envC"
    by (simp_all add: cancelledTurn_def exampleTurn_def)
  have ids: "partialMsgId ?envA = ''a2''"
    by (simp add: cancelledTurn_def exampleTurn_def)
  note A = C3_cancelled_turn [where p = examplePlatform and input = exampleInput and channel = ?ch
      and apiKey = "''key''" and env = ?envA and w = exampleWorld and run = ?runA
      and e = "ErrorObject (OtherMessage ''aborted'')"
      and thrown = "fst (sendMessage examplePlatform ?envA exampleInput exampleWorld)"
      and w' = "snd (sendMessage examplePlatform ?envA exampleInput exampleWorld)",
      OF example_channel key okA(1)]
  note B = C3_cancelled_turn [where p = examplePlatform and input = exampleInput and channel = ?ch
      and apiKey = "''key''" and env = ?envB and w = exampleWorld and run = ?runB
      and e = "ErrorObject (OtherMessage ''aborted'')"
      and thrown = "fst (sendMessage examplePlatform ?envB exampleInput exampleWorld)"
      and w' = "snd (sendMessage examplePlatform ?envB exampleInput exampleWorld)",
      OF example_channel key okB]
  note C = C3_cancelled_turn [where p = examplePlatform and input = exampleInput and channel = ?ch
      and apiKey = "''key''" and env = ?envC and w = exampleWorld and run = ?runA
      and e = "ErrorObject (OtherMessage ''aborted'')"
      and thrown = "fst (sendMessage examplePlatform ?envC exampleInput exampleWorld)"
      and w' = "snd (sendMessage examplePlatform ?envC exampleInput exampleWorld)",
      OF example_channel key okC]
  have C': "fst (sendMessage examplePlatform ?envC exampleInput exampleWorld)
        = Some (ErrorObject AppendFailed) \<and>
      logs (snd (sendMessage examplePlatform ?envC exampleInput exampleWorld)) ''c1'' =
        logs exampleWorld ''c1'' @ [userMsg ?envC exampleInput] \<and>
      sent (snd (sendMessage examplePlatform ?envC exampleInput exampleWorld)) =
        [STREAM_CHUNK ''c1'' ''2+'', STREAM_REASONING ''c1'' ''hm'', STREAM_CHUNK ''c1'' ''2'']"
    using C notC
    by (simp add: cancelledTurn_def exampleInput_def exampleWorld_def exampleTurn_def)
  have A': "fst (sendMessage examplePlatform ?envA exampleInput exampleWorld) = None \<and>
      logs (snd (sendMessage examplePlatform ?envA exampleInput exampleWorld)) ''c1'' =
        logs exampleWorld ''c1'' @ [userMsg ?envA exampleInput, partialMsg ?envA exampleInput ''2+2'' ''hm''] \<and>
      sent (snd (sendMessage examplePlatform ?envA exampleInput exampleWorld)) =
        [STREAM_CHUNK ''c1'' ''2+'', STREAM_REASONING ''c1'' ''hm'', STREAM_CHUNK ''c1'' ''2'',
         STREAM_COMPLETE ''c1'' ''model'' (Some ''a2'')]"
    using A okA(2)
    by (simp add: cancelledTurn_def exampleInput_def exampleWorld_def partialMsg_def exampleTurn_def)
  have B': "fst (sendMessage examplePlatform ?envB exampleInput exampleWorld) = None \<and>
      logs (snd (sendMessage examplePlatform ?envB exampleInput exampleWorld)) ''c1'' =
        logs exampleWorld ''c1'' @ [userMsg ?envB exampleInput] \<and>
      sent (snd (sendMessage examplePlatform ?envB exampleInput exampleWorld)) =
        [STREAM_REASONING ''c1'' ''hm'', STREAM_COMPLETE ''c1'' ''model'' None]"
    using B
    by (simp add: cancelledTurn_def exampleInput_def exampleWorld_def)
  from A' B' C' example_channel key okA okB okC notC show ?thesis
    by (simp add: userMsg_def partialMsg_def cancelledTurn_def exampleTurn_def exampleInput_def
        exampleWorld_def)
qed

text \<open>
  The claim as the specification words it fails when the store refuses the append of the
  partial message (lines 233-244 call \<open>appendMessage\<close> with no \<^verbatim>\<open>try\<close> around it): the turn
  below is cancelled with the accumulated text \<open>2+2\<close>, yet the log ends with the user
  message, no completion event follows the relayed events, and \<open>sendMessage\<close> raises.
\<close>

theorem C3_partial_append_refused_counterexample:
  "chunkText [StreamChunk ''2+'', StreamReasoning ''hm'', StreamChunk ''2''] = ''2+2'' \<and>
   fst (sendMessage examplePlatform
          ((cancelledTurn [StreamChunk ''2+'', StreamReasoning ''hm'', StreamChunk ''2''])
             \<lparr>partialAppendOk := False\<rparr>)
          exampleInput exampleWorld) = Some (ErrorObject AppendFailed) \<and>
   logs (snd (sendMessage examplePlatform
          ((cancelledTurn [StreamChunk ''2+'', StreamReasoning ''hm'', StreamChunk ''2''])
             \<lparr>partialAppendOk := False\<rparr>)
          exampleInput exampleWorld)) ''c1''
     = [plainMessage ''u1'' User ''hi'', plainMessage ''a1'' Assistant ''hello'',
        \<lparr>msg_id = ''u2'', msg_role = User, msg_content = ''what's 2+2?'', msg_createdAt = 3,
         msg_attachments = None, msg_model = None, msg_reasoning = None, msg_stopped = None\<rparr>] \<and>
   sent (snd (sendMessage examplePlatform
          ((cancelledTurn [StreamChunk ''2+'', StreamReasoning ''hm'', StreamChunk ''2''])
             \<lparr>partialAppendOk := False\<rparr>)
          exampleInput exampleWorld))
     = [STREAM_CHUNK ''c1'' ''2+'', STREAM_REASONING ''c1'' ''hm'', STREAM_CHUNK ''c1'' ''2'']"
  by (simp add: sendMessage_def streamTurn_unfold appendMessage_def Let_def onCatch_def
      userMsg_def cancelledTurn_def
      examplePlatform_def exampleTurn_def exampleInput_def exampleWorld_def)

text \<open>
  Claim C1 describes the request for the stored history \<open>user: hi\<close>, \<open>assistant: hello\<close>,
  the new message \<open>what's 2+2?\<close> and \<open>contextLength = 1\<close> as the prior round followed by
  the new message. The code reads the history back after appending the new message, so
  the window of one round is the new message alone, and the adapter appends the new
  message once more: the request holds the new message twice and nothing of the prior
  round.
\<close>

theorem C1_window_holds_new_message_only:
  "logs exampleWorld ''c1'' = [plainMessage ''u1'' User ''hi'', plainMessage ''a1'' Assistant ''hello''] \<and>
   in_userMessage exampleInput = ''what's 2+2?'' \<and> in_contextLength exampleInput = Num 1 \<and>
   map (\<lambda>(provider, request). (provider, req_history request, toAnthropicMessages request))
     (requests (snd (sendMessage examplePlatform exampleTurn exampleInput exampleWorld)))
     = [(''anthropic'',
         [\<lparr>msg_id = ''u2'', msg_role = User, msg_content = ''what's 2+2?'', msg_createdAt = 3,
           msg_attachments = None, msg_model = None, msg_reasoning = None, msg_stopped = None\<rparr>],
         [\<lparr>am_role = RoleUser, am_content = Text ''what's 2+2?''\<rparr>,
          \<lparr>am_role = RoleUser, am_content = Text ''what's 2+2?''\<rparr>])]"
  by (simp add: sendMessage_def streamTurn_unfold appendMessage_def Let_def saveAssistant_def
      send_def touchMeta_keeps userMsg_def streamRequestInput_def filterHistory_def dividerFilter_def
      toAnthropicMessages_def toAnthropicMessage_def buildMessageContent_def
      getImageAttachmentData_def
      examplePlatform_def exampleTurn_def exampleInput_def exampleWorld_def)

section \<open>Properties of title generation\<close>

lemma last_dropWhile: "dropWhile P xs \<noteq> [] \<Longrightarrow> last (dropWhile P xs) = last xs"
  by (induction xs) (auto split: if_splits)

lemma stripQuotes_ends:
  assumes "stripQuotes s \<noteq> []"
  shows "\<not> isQuote (hd (stripQuotes s)) \<and> \<not> isQuote (last (stripQuotes s))"
proof -
  define ys where "ys = dropWhile isQuote s"
  define zs where "zs = dropWhile isQuote (rev ys)"
  have res: "stripQuotes s = rev zs" by (simp add: stripQuotes_def ys_def zs_def)
  with assms have zs: "zs \<noteq> []" by simp
  then have ys: "ys \<noteq> []" by (auto simp: zs_def)
  have "last (rev zs) = hd zs" using zs by (simp add: last_rev)
  moreover have "\<not> isQuote (hd zs)" using zs unfolding zs_def by (rule hd_dropWhile)
  moreover have "hd (rev zs) = last zs" using zs by (simp add: hd_rev)
  moreover have "last zs = last (rev ys)" using zs unfolding zs_def by (rule last_dropWhile)
  moreover have "last (rev ys) = hd ys" using ys by (simp add: last_rev)
  moreover have "\<not> isQuote (hd ys)" using ys unfolding ys_def by (rule hd_dropWhile)
  ultimately show ?thesis using res by simp
qed

lemma cleanTitle_Some:
  "cleanTitle title = Some t \<Longrightarrow>
     \<exists>raw. title = Some raw \<and> t = take MAX_TITLE_LENGTH (trim (stripQuotes (trim raw))) \<and> t \<noteq> []"
  by (auto simp: cleanTitle_def Let_def split: option.splits if_splits)

lemma catchNull_total: "\<exists>r. catchNull x = Inr r"
  by (cases x) simp_all

lemma generateTitle_total: "\<exists>r. generateTitle p fetchTitle input = Inr r"
  using catchNull_total
  by (auto simp: generateTitle_def split: option.splits)

lemma generateTitle_Some:
  assumes "generateTitle p fetchTitle input = Inr (Some t)"
  shows "\<exists>channel apiKey raw.
           find (\<lambda>c. ch_id c = gt_channelId input) (listChannels p) = Some channel \<and>
           decryptApiKey p (gt_channelId input) = Some apiKey \<and>
           fetchTitle (ch_provider channel) (titleRequestInput channel apiKey input) = Inr (Some raw) \<and>
           t = take MAX_TITLE_LENGTH (trim (stripQuotes (trim raw)))"
proof -
  from assms obtain channel where
    ch: "find (\<lambda>c. ch_id c = gt_channelId input) (listChannels p) = Some channel"
    by (cases "find (\<lambda>c. ch_id c = gt_channelId input) (listChannels p)")
       (simp_all add: generateTitle_def)
  from assms ch obtain apiKey where key: "decryptApiKey p (gt_channelId input) = Some apiKey"
    by (cases "decryptApiKey p (gt_channelId input)") (simp_all add: generateTitle_def)
  from assms ch key have c: "catchNull
        (bindE (fetchTitle (ch_provider channel) (titleRequestInput channel apiKey input))
           (\<lambda>title. Inr (cleanTitle title))) = Inr (Some t)"
    by (simp add: generateTitle_def)
  then obtain title where
    f: "fetchTitle (ch_provider channel) (titleRequestInput channel apiKey input) = Inr title"
    and cl: "cleanTitle title = Some t"
    by (cases "fetchTitle (ch_provider channel) (titleRequestInput channel apiKey input)") simp_all
  from cleanTitle_Some [OF cl] obtain raw where
    "title = Some raw" "t = take MAX_TITLE_LENGTH (trim (stripQuotes (trim raw)))"
    by blast
  with ch key f show ?thesis by blast
qed

lemma cleanTitle_value:
  "cleanTitle (Some raw) =
     (if take MAX_TITLE_LENGTH (trim (stripQuotes (trim raw))) = [] then None
      else Some (take MAX_TITLE_LENGTH (trim (stripQuotes (trim raw)))))"
proof (cases "raw = []")
  case True
  then have "trim (stripQuotes (trim raw)) = []"
    by (simp add: trim_def stripQuotes_def)
  with True show ?thesis
    by (simp add: cleanTitle_def)
next
  case False
  then show ?thesis
    by (simp add: cleanTitle_def Let_def)
qed

lemma generateTitle_fetched:
  assumes "find (\<lambda>c. ch_id c = gt_channelId input) (listChannels p) = Some channel"
    and "decryptApiKey p (gt_channelId input) = Some apiKey"
    and "fetchTitle (ch_provider channel) (titleRequestInput channel apiKey input) = Inr title"
  shows "generateTitle p fetchTitle input = Inr (cleanTitle title)"
  using assms by (simp add: generateTitle_def)

lemma title_quote_free:
  assumes "trim (stripQuotes s) = stripQuotes s" and "take n (stripQuotes s) \<noteq> []"
  shows "\<not> isQuote (hd (take n (trim (stripQuotes s))))"
    and "length (stripQuotes s) \<le> n \<Longrightarrow> \<not> isQuote (last (take n (trim (stripQuotes s))))"
proof -
  from assms(2) have ne: "stripQuotes s \<noteq> []" and n: "0 < n" by auto
  from n ne have "hd (take n (stripQuotes s)) = hd (stripQuotes s)"
    by (cases "stripQuotes s"; cases n) simp_all
  with assms(1) stripQuotes_ends [OF ne]
  show "\<not> isQuote (hd (take n (trim (stripQuotes s))))" by simp
  assume "length (stripQuotes s) \<le> n"
  with assms(1) stripQuotes_ends [OF ne]
  show "\<not> isQuote (last (take n (trim (stripQuotes s))))" by simp
qed

text \<open>
  Claim C8, as the code has it. \<open>generateTitle\<close> never raises: it always resolves, to a
  title or to \<^verbatim>\<open>null\<close>. It gives \<^verbatim>\<open>null\<close> when the channel is missing, when the key cannot
  be decrypted, and when the request or the parsing of its response fails or yields no
  title. When the request yields the title text \<open>raw\<close>, the result is \<open>raw\<close> trimmed, with
  the run of quote characters at its start and the one at its end removed, trimmed
  again and cut to \<open>MAX_TITLE_LENGTH\<close> code units, and \<^verbatim>\<open>null\<close> if nothing remains; no title
  arises in another way. The quote characters are removed once: when nothing is left
  to trim after their removal, the title does not start with a quote character, and
  does not end with one unless it was cut; quote characters that white space separated
  from the removed ones remain. The response text \<open>"My Trip Plan"\<close>, quotes included,
  yields the title \<open>My Trip Plan\<close>.
\<close>

theorem C8_generateTitle:
  \<open>(\<exists>r. generateTitle p fetchTitle input = Inr r) \<and>
   (find (\<lambda>c. ch_id c = gt_channelId input) (listChannels p) = None \<or>
    decryptApiKey p (gt_channelId input) = None
      \<longrightarrow> generateTitle p fetchTitle input = Inr None) \<and>
   (find (\<lambda>c. ch_id c = gt_channelId input) (listChannels p) = Some channel \<and>
    decryptApiKey p (gt_channelId input) = Some apiKey \<and>
    (fetchTitle (ch_provider channel) (titleRequestInput channel apiKey input) = Inl e \<or>
     fetchTitle (ch_provider channel) (titleRequestInput channel apiKey input) = Inr None)
      \<longrightarrow> generateTitle p fetchTitle input = Inr None) \<and>
   (find (\<lambda>c. ch_id c = gt_channelId input) (listChannels p) = Some channel \<and>
    decryptApiKey p (gt_channelId input) = Some apiKey \<and>
    fetchTitle (ch_provider channel) (titleRequestInput channel apiKey input) = Inr (Some raw) \<and>
    take MAX_TITLE_LENGTH (trim (stripQuotes (trim raw))) \<noteq> []
      \<longrightarrow> generateTitle p fetchTitle input
            = Inr (Some (take MAX_TITLE_LENGTH (trim (stripQuotes (trim raw))))) \<and>
          (trim (stripQuotes (trim raw)) = stripQuotes (trim raw)
             \<longrightarrow> \<not> isQuote (hd (take MAX_TITLE_LENGTH (trim (stripQuotes (trim raw))))) \<and>
                 (length (stripQuotes (trim raw)) \<le> MAX_TITLE_LENGTH
                    \<longrightarrow> \<not> isQuote (last (take MAX_TITLE_LENGTH (trim (stripQuotes (trim raw)))))))) \<and>
   (find (\<lambda>c. ch_id c = gt_channelId input) (listChannels p) = Some channel \<and>
    decryptApiKey p (gt_channelId input) = Some apiKey \<and>
    fetchTitle (ch_provider channel) (titleRequestInput channel apiKey input) = Inr (Some raw) \<and>
    take MAX_TITLE_LENGTH (trim (stripQuotes (trim raw))) = []
      \<longrightarrow> generateTitle p fetchTitle input = Inr None) \<and>
   (generateTitle p fetchTitle input = Inr (Some t)
      \<longrightarrow> length t \<le> MAX_TITLE_LENGTH \<and>
          (\<exists>ch key title.
             find (\<lambda>c. ch_id c = gt_channelId input) (listChannels p) = Some ch \<and>
             decryptApiKey p (gt_channelId input) = Some key \<and>
             fetchTitle (ch_provider ch) (titleRequestInput ch key input) = Inr (Some title) \<and>
             t = take MAX_TITLE_LENGTH (trim (stripQuotes (trim title))))) \<and>
   (find (\<lambda>c. ch_id c = gt_channelId input) (listChannels p) = Some channel \<and>
    decryptApiKey p (gt_channelId input) = Some apiKey \<and>
    fetchTitle (ch_provider channel) (titleRequestInput channel apiKey input)
      = Inr (Some (codeUnits ''"My Trip Plan"''))
      \<longrightarrow> generateTitle p fetchTitle input = Inr (Some (codeUnits ''My Trip Plan'')))\<close>
proof (intro conjI impI)
  show "\<exists>r. generateTitle p fetchTitle input = Inr r"
    by (rule generateTitle_total)
next
  assume "find (\<lambda>c. ch_id c = gt_channelId input) (listChannels p) = None \<or>
    decryptApiKey p (gt_channelId input) = None"
  then show "generateTitle p fetchTitle input = Inr None"
    by (auto simp: generateTitle_def split: option.splits)
next
  assume "find (\<lambda>c. ch_id c = gt_channelId input) (listChannels p) = Some channel \<and>
    decryptApiKey p (gt_channelId input) = Some apiKey \<and>
    (fetchTitle (ch_provider channel) (titleRequestInput channel apiKey input) = Inl e \<or>
     fetchTitle (ch_provider channel) (titleRequestInput channel apiKey input) = Inr None)"
  then show "generateTitle p fetchTitle input = Inr None"
    by (auto simp: generateTitle_def cleanTitle_def)
next
  assume h: "find (\<lambda>c. ch_id c = gt_channelId input) (listChannels p) = Some channel \<and>
    decryptApiKey p (gt_channelId input) = Some apiKey \<and>
    fetchTitle (ch_provider channel) (titleRequestInput channel apiKey input) = Inr (Some raw) \<and>
    take MAX_TITLE_LENGTH (trim (stripQuotes (trim raw))) \<noteq> []"
  then have "generateTitle p fetchTitle input = Inr (cleanTitle (Some raw))"
    by (intro generateTitle_fetched [of input p channel apiKey]) simp_all
  with h show "generateTitle p fetchTitle input
            = Inr (Some (take MAX_TITLE_LENGTH (trim (stripQuotes (trim raw)))))"
    by (simp add: cleanTitle_value)
  assume t: "trim (stripQuotes (trim raw)) = stripQuotes (trim raw)"
  with h have ne: "take MAX_TITLE_LENGTH (stripQuotes (trim raw)) \<noteq> []" by simp
  from title_quote_free(1) [OF t ne]
  show "\<not> isQuote (hd (take MAX_TITLE_LENGTH (trim (stripQuotes (trim raw)))))" .
  assume "length (stripQuotes (trim raw)) \<le> MAX_TITLE_LENGTH"
  from title_quote_free(2) [OF t ne this]
  show "\<not> isQuote (last (take MAX_TITLE_LENGTH (trim (stripQuotes (trim raw)))))" .
next
  assume h: "find (\<lambda>c. ch_id c = gt_channelId input) (listChannels p) = Some channel \<and>
    decryptApiKey p (gt_channelId input) = Some apiKey \<and>
    fetchTitle (ch_provider channel) (titleRequestInput channel apiKey input) = Inr (Some raw) \<and>
    take MAX_TITLE_LENGTH (trim (stripQuotes (trim raw))) = []"
  then have "generateTitle p fetchTitle input = Inr (cleanTitle (Some raw))"
    by (intro generateTitle_fetched [of input p channel apiKey]) simp_all
  with h show "generateTitle p fetchTitle input = Inr None"
    by (simp add: cleanTitle_value)
next
  assume a: "generateTitle p fetchTitle input = Inr (Some t)"
  from generateTitle_Some [OF a]
  show "\<exists>ch key title.
             find (\<lambda>c. ch_id c = gt_channelId input) (listChannels p) = Some ch \<and>
             decryptApiKey p (gt_channelId input) = Some key \<and>
             fetchTitle (ch_provider ch) (titleRequestInput ch key input) = Inr (Some title) \<and>
             t = take MAX_TITLE_LENGTH (trim (stripQuotes (trim title)))" .
  then show "length t \<le> MAX_TITLE_LENGTH" by auto
next
  assume h: \<open>find (\<lambda>c. ch_id c = gt_channelId input) (listChannels p) = Some channel \<and>
    decryptApiKey p (gt_channelId input) = Some apiKey \<and>
    fetchTitle (ch_provider channel) (titleRequestInput channel apiKey input)
      = Inr (Some (codeUnits ''"My Trip Plan"''))\<close>
  then have \<open>generateTitle p fetchTitle input = Inr (cleanTitle (Some (codeUnits ''"My Trip Plan"'')))\<close>
    by (intro generateTitle_fetched [of input p channel apiKey]) simp_all
  then show "generateTitle p fetchTitle input = Inr (Some (codeUnits ''My Trip Plan''))"
    by (simp add: cleanTitle_def codeUnits_def trim_def stripQuotes_def isQuote_def
        isWhiteSpace_def MAX_TITLE_LENGTH_def)
qed

theorem C8_generateTitle_witness:
  \<open>find (\<lambda>c. ch_id c = gt_channelId (exampleTitleInput\<lparr>gt_channelId := ''gone''\<rparr>))
      (listChannels examplePlatform) = None \<and>
   generateTitle examplePlatform (\<lambda>provider request. Inr (Some (codeUnits ''"My Trip Plan"'')))
      (exampleTitleInput\<lparr>gt_channelId := ''gone''\<rparr>) = Inr None \<and>
   find (\<lambda>c. ch_id c = gt_channelId exampleTitleInput) (listChannels examplePlatform)
     = Some \<lparr>ch_id = ''ch1'', ch_provider = ''anthropic'', ch_baseUrl = ''https://api''\<rparr> \<and>
   decryptApiKey examplePlatform (gt_channelId exampleTitleInput) = Some ''key'' \<and>
   generateTitle examplePlatform (\<lambda>provider request. Inl NonError) exampleTitleInput = Inr None \<and>
   take MAX_TITLE_LENGTH (trim (stripQuotes (trim (codeUnits ''"My Trip Plan"''))))
     = codeUnits ''My Trip Plan'' \<and>
   codeUnits ''My Trip Plan'' \<noteq> [] \<and>
   trim (stripQuotes (trim (codeUnits ''"My Trip Plan"'')))
     = stripQuotes (trim (codeUnits ''"My Trip Plan"'')) \<and>
   length (stripQuotes (trim (codeUnits ''"My Trip Plan"''))) \<le> MAX_TITLE_LENGTH \<and>
   generateTitle examplePlatform (\<lambda>provider request. Inr (Some (codeUnits ''"My Trip Plan"'')))
      exampleTitleInput = Inr (Some (codeUnits ''My Trip Plan'')) \<and>
   length (codeUnits ''My Trip Plan'') \<le> MAX_TITLE_LENGTH \<and>
   \<not> isQuote (hd (codeUnits ''My Trip Plan'')) \<and> \<not> isQuote (last (codeUnits ''My Trip Plan'')) \<and>
   take MAX_TITLE_LENGTH (trim (stripQuotes (trim [34, 34]))) = [] \<and>
   generateTitle examplePlatform (\<lambda>provider request. Inr (Some [34, 34])) exampleTitleInput
     = Inr None\<close>
  using C8_generateTitle [of examplePlatform
      \<open>\<lambda>provider request. Inr (Some (codeUnits ''"My Trip Plan"''))\<close>
      "exampleTitleInput\<lparr>gt_channelId := ''gone''\<rparr>"
      "\<lparr>ch_id = ''ch1'', ch_provider = ''anthropic'', ch_baseUrl = ''https://api''\<rparr>"
      "''key''" NonError "[]" "[]"]
    C8_generateTitle [of examplePlatform "\<lambda>provider request. Inl NonError" exampleTitleInput
      "\<lparr>ch_id = ''ch1'', ch_provider = ''anthropic'', ch_baseUrl = ''https://api''\<rparr>"
      "''key''" NonError "[]" "[]"]
    C8_generateTitle [of examplePlatform
      \<open>\<lambda>provider request. Inr (Some (codeUnits ''"My Trip Plan"''))\<close> exampleTitleInput
      "\<lparr>ch_id = ''ch1'', ch_provider = ''anthropic'', ch_baseUrl = ''https://api''\<rparr>"
      "''key''" NonError \<open>codeUnits ''"My Trip Plan"''\<close> \<open>codeUnits ''My Trip Plan''\<close>]
    C8_generateTitle [of examplePlatform
      \<open>\<lambda>provider request. Inr (Some [34, 34])\<close> exampleTitleInput
      "\<lparr>ch_id = ''ch1'', ch_provider = ''anthropic'', ch_baseUrl = ''https://api''\<rparr>"
      "''key''" NonError "[34, 34]" "[]"]
  by (simp add: generateTitle_def cleanTitle_def codeUnits_def trim_def stripQuotes_def isQuote_def
      isWhiteSpace_def MAX_TITLE_LENGTH_def examplePlatform_def exampleTitleInput_def)

text \<open>
  The claim as the specification words it fails for a title whose quote characters are
  nested with white space between them. For the response text of the seven code units
  double quote, space, single quote, \<open>x\<close>, single quote, space, double quote, the title
  returned is single quote, \<open>x\<close>, single quote: it has a quote character at each end.
\<close>

theorem C8_nested_quotes_counterexample:
  "generateTitle examplePlatform (\<lambda>provider request. Inr (Some [34, 32, 39, 120, 39, 32, 34]))
      exampleTitleInput = Inr (Some [39, 120, 39]) \<and>
   isQuote (hd [39, 120, 39]) \<and> isQuote (last [39, 120, 39])"
  by (simp add: generateTitle_def cleanTitle_def trim_def stripQuotes_def isQuote_def
      isWhiteSpace_def MAX_TITLE_LENGTH_def examplePlatform_def exampleTitleInput_def)

section \<open>Properties of the conversation store\<close>





end
